theory Spec2Isabelle
  imports Main "HOL-Library.Word" "HOL-Library.Sublist"
begin

unbundle bit_operations_syntax

section \<open>Python values used by adafruit\_minimqtt\<close>

text \<open>
  A byte is an 8-bit word. A Python \<open>str\<close> is its list of code points, so that
  \<open>len\<close> counts code points, as it does in the source; \<open>bytes\<close> and
  \<open>bytearray\<close> are byte lists. Python integers are unbounded: \<open>int\<close>.
  Every exception the modelled code can raise is a constructor of \<open>error\<close>.
  The module targets CircuitPython (it imports \<open>microcontroller\<close> and
  \<open>micropython\<close>): adding a \<open>str\<close> to a \<open>bytes\<close> object appends the
  string's UTF-8 bytes there, and \<open>struct.pack\<close> and \<open>int.to_bytes\<close> raise when the
  value does not fit (\<open>PackError\<close> stands for what \<open>struct\<close> raises).
\<close>

type_synonym byte = "8 word"
type_synonym pystr = "nat list"

datatype error =
    MMQTTException string
  | NotImplementedError
  | ValueError
  | TypeError
  | AttributeError
  | AssertionError
  | IndexError
  | KeyError int
  | OverflowError
  | PackError
  | UnicodeError

text \<open>\<open>str.encode('utf-8')\<close>: one to four bytes per code point; a surrogate (or a
  number that is no code point) cannot be encoded.\<close>

definition utf8_cp :: "nat \<Rightarrow> error + byte list" where
  "utf8_cp cp =
     (if cp < 0x80 then Inr [of_nat cp]
      else if cp < 0x800 then Inr [of_nat (0xC0 + cp div 64), of_nat (0x80 + cp mod 64)]
      else if 0xD800 \<le> cp \<and> cp < 0xE000 then Inl UnicodeError
      else if cp < 0x10000 then
        Inr [of_nat (0xE0 + cp div 4096), of_nat (0x80 + (cp div 64) mod 64),
             of_nat (0x80 + cp mod 64)]
      else if cp < 0x110000 then
        Inr [of_nat (0xF0 + cp div 262144), of_nat (0x80 + (cp div 4096) mod 64),
             of_nat (0x80 + (cp div 64) mod 64), of_nat (0x80 + cp mod 64)]
      else Inl UnicodeError)"

fun utf8_encode :: "pystr \<Rightarrow> error + byte list" where
  "utf8_encode [] = Inr []"
| "utf8_encode (c # cs) =
     (case utf8_cp c of
        Inl e \<Rightarrow> Inl e
      | Inr bs \<Rightarrow> (case utf8_encode cs of Inl e \<Rightarrow> Inl e | Inr rest \<Rightarrow> Inr (bs @ rest)))"

text \<open>\<open>str(bytes, 'utf-8')\<close>: strict decoding (no overlong forms, no surrogates,
  nothing above U+10FFFF).\<close>

definition is_cont :: "byte \<Rightarrow> bool" where
  "is_cont b = (0x80 \<le> unat b \<and> unat b < 0xC0)"

fun utf8_decode :: "byte list \<Rightarrow> error + pystr" where
  "utf8_decode [] = Inr []"
| "utf8_decode (b # bs) =
     (let n = unat b in
      if n < 0x80 then
        (case utf8_decode bs of Inl e \<Rightarrow> Inl e | Inr cs \<Rightarrow> Inr (n # cs))
      else if 0xC2 \<le> n \<and> n < 0xE0 then
        (case bs of
           b1 # r \<Rightarrow>
             if is_cont b1 then
               (case utf8_decode r of Inl e \<Rightarrow> Inl e
                | Inr cs \<Rightarrow> Inr (((n - 0xC0) * 64 + (unat b1 - 0x80)) # cs))
             else Inl UnicodeError
         | _ \<Rightarrow> Inl UnicodeError)
      else if 0xE0 \<le> n \<and> n < 0xF0 then
        (case bs of
           b1 # b2 # r \<Rightarrow>
             (let cp = (n - 0xE0) * 4096 + (unat b1 - 0x80) * 64 + (unat b2 - 0x80) in
              if is_cont b1 \<and> is_cont b2 \<and> 0x800 \<le> cp \<and> \<not> (0xD800 \<le> cp \<and> cp < 0xE000) then
                (case utf8_decode r of Inl e \<Rightarrow> Inl e | Inr cs \<Rightarrow> Inr (cp # cs))
              else Inl UnicodeError)
         | _ \<Rightarrow> Inl UnicodeError)
      else if 0xF0 \<le> n \<and> n < 0xF5 then
        (case bs of
           b1 # b2 # b3 # r \<Rightarrow>
             (let cp = (n - 0xF0) * 262144 + (unat b1 - 0x80) * 4096
                       + (unat b2 - 0x80) * 64 + (unat b3 - 0x80) in
              if is_cont b1 \<and> is_cont b2 \<and> is_cont b3 \<and> 0x10000 \<le> cp \<and> cp < 0x110000 then
                (case utf8_decode r of Inl e \<Rightarrow> Inl e | Inr cs \<Rightarrow> Inr (cp # cs))
              else Inl UnicodeError)
         | _ \<Rightarrow> Inl UnicodeError)
      else Inl UnicodeError)"

text \<open>\<open>struct.pack("!H", n)\<close>: two bytes, big-endian; raises when \<open>n\<close> is not in
  \<open>0..65535\<close>.\<close>

definition struct_pack_H :: "int \<Rightarrow> error + byte list" where
  "struct_pack_H n =
     (if 0 \<le> n \<and> n \<le> 65535 then Inr [word_of_int (n div 256), word_of_int (n mod 256)]
      else Inl PackError)"

text \<open>\<open>n.to_bytes(k, 'big')\<close> for \<open>k = 1\<close> and \<open>k = 2\<close>: raises OverflowError
  when \<open>n\<close> is negative or needs more than \<open>k\<close> bytes.\<close>

definition to_bytes1 :: "int \<Rightarrow> error + byte list" where
  "to_bytes1 n = (if 0 \<le> n \<and> n \<le> 255 then Inr [word_of_int n] else Inl OverflowError)"

definition to_bytes2 :: "int \<Rightarrow> error + byte list" where
  "to_bytes2 n =
     (if 0 \<le> n \<and> n \<le> 65535 then Inr [word_of_int (n div 256), word_of_int (n mod 256)]
      else Inl OverflowError)"

text \<open>\<open>buf[i]\<close> and \<open>buf[i] = v\<close> on a bytes object or a bytearray, for \<open>i \<ge> 0\<close>:
  IndexError out of range, ValueError when \<open>v\<close> is no byte.\<close>

definition getitem :: "byte list \<Rightarrow> nat \<Rightarrow> error + int" where
  "getitem bs i = (if i < length bs then Inr (uint (bs ! i)) else Inl IndexError)"

definition setitem :: "byte list \<Rightarrow> nat \<Rightarrow> int \<Rightarrow> error + byte list" where
  "setitem bs i v =
     (if length bs \<le> i then Inl IndexError
      else if v < 0 \<or> 255 < v then Inl ValueError
      else Inr (bs[i := word_of_int v]))"

section \<open>The client and its transport\<close>

text \<open>
  The attributes of an \<open>MQTT\<close> object, the three module-level bytearrays the methods
  write into (\<open>MQTT_PUB\<close>, \<open>MQTT_CON\<close>, \<open>MQTT_CON_HEADER\<close>: they are shared
  and keep what a call stored in them), and the transport: \<open>rx\<close> holds the bytes the
  broker delivers, in order, \<open>tx\<close> the chunks written so far, one per \<open>write\<close>
  call, and \<open>net_ok\<close> tells whether the socket's \<open>connect\<close> succeeds. A callback
  is an optional function of the user: the model records whether it is set and logs
  each call in \<open>events\<close>. Logging is left out.
\<close>

datatype event =
    OnConnect int int
  | OnPublish int
  | OnSubscribe int
  | OnUnsubscribe pystr int
  | OnMessage pystr pystr

record mqtt =
  esp :: bool
  port :: int
  user :: "pystr option"
  passw :: pystr
  client_id :: pystr
  is_connected_attr :: bool
  has_sock :: bool
  keep_alive :: int
  pid :: int
  lw_topic :: "pystr option"
  lw_msg :: "pystr option"
  lw_qos :: int
  lw_retain :: bool
  subscribed_topics :: "pystr list"
  on_connect :: bool
  on_message :: bool
  on_publish :: bool
  on_subscribe :: bool
  on_unsubscribe :: bool
  events :: "event list"
  MQTT_PUB :: "byte list"
  MQTT_CON :: "byte list"
  MQTT_CON_HEADER :: "byte list"
  net_ok :: bool
  rx :: "byte list"
  tx :: "byte list list"

definition fire :: "bool \<Rightarrow> event \<Rightarrow> mqtt \<Rightarrow> mqtt" where
  "fire cb ev s = (if cb then s\<lparr>events := events s @ [ev]\<rparr> else s)"

text \<open>\<open>write\<close> appends a chunk. \<open>read(n)\<close> returns the next \<open>n\<close> bytes, fewer
  (down to none) when the stream ends before, which is the read timing out; a count
  below one reads nothing.\<close>

definition sock_write :: "mqtt \<Rightarrow> byte list \<Rightarrow> mqtt" where
  "sock_write s bs = s\<lparr>tx := tx s @ [bs]\<rparr>"

definition sock_read :: "mqtt \<Rightarrow> int \<Rightarrow> byte list \<times> mqtt" where
  "sock_read s n = (take (nat n) (rx s), s\<lparr>rx := drop (nat n) (rx s)\<rparr>)"

section \<open>Wire codec\<close>

text \<open>\<open>_send_str\<close>, for a \<open>str\<close>: the length of the string as \<open>len\<close> gives it,
  packed in two bytes, then the UTF-8 encoding of the string.\<close>

definition send_str :: "mqtt \<Rightarrow> pystr \<Rightarrow> (error + unit) \<times> mqtt" where
  "send_str s string =
     (case struct_pack_H (int (length string)) of
        Inl e \<Rightarrow> (Inl e, s)
      | Inr hdr \<Rightarrow>
          (let s1 = sock_write s hdr in
           case utf8_encode string of
             Inl e \<Rightarrow> (Inl e, s1)
           | Inr bs \<Rightarrow> (Inr (), sock_write s1 bs)))"

text \<open>\<open>_recv_len\<close>: the loop reads one byte per round; \<open>read(1)[0]\<close> raises
  IndexError when the stream has ended.\<close>

fun recv_len_loop :: "int \<Rightarrow> nat \<Rightarrow> byte list \<Rightarrow> error + (int \<times> byte list)" where
  "recv_len_loop n sh [] = Inl IndexError"
| "recv_len_loop n sh (b # bs) =
     (let n' = n OR push_bit sh (uint b AND 0x7f) in
      if uint b AND 0x80 = 0 then Inr (n', bs) else recv_len_loop n' (sh + 7) bs)"

definition recv_len :: "mqtt \<Rightarrow> (error + int) \<times> mqtt" where
  "recv_len s =
     (case recv_len_loop 0 0 (rx s) of
        Inl e \<Rightarrow> (Inl e, s\<lparr>rx := []\<rparr>)
      | Inr (n, r) \<Rightarrow> (Inr n, s\<lparr>rx := r\<rparr>))"

text \<open>The remaining-length loop of \<open>publish\<close> and \<open>connect\<close>: it stores into the
  bytearray \<open>pkt\<close> from index \<open>i\<close> on, and an index past the end raises IndexError.
  The bytes stored before the failing store stay in the bytearray.\<close>

function encode_len :: "byte list \<Rightarrow> nat \<Rightarrow> int \<Rightarrow> (error + unit) \<times> byte list" where
  "encode_len pkt i sz =
     (if sz > 0x7f then
        (case setitem pkt i ((sz AND 0x7f) OR 0x80) of
           Inl e \<Rightarrow> (Inl e, pkt)
         | Inr pkt' \<Rightarrow> encode_len pkt' (i + 1) (drop_bit 7 sz))
      else
        (case setitem pkt i sz of
           Inl e \<Rightarrow> (Inl e, pkt)
         | Inr pkt' \<Rightarrow> (Inr (), pkt')))"
  by pat_completeness auto
termination
proof (relation "measure (\<lambda>(pkt, i, sz). nat sz)")
  show "wf (measure (\<lambda>(pkt, i, sz). nat sz))" by simp
next
  fix pkt :: "byte list" and i :: nat and sz :: int and pkt' :: "byte list"
  assume "0x7f < sz"
  then have "sz div 128 < sz" by simp
  then show "((pkt', i + 1, drop_bit 7 sz), (pkt, i, sz)) \<in> measure (\<lambda>(pkt, i, sz). nat sz)"
    using \<open>0x7f < sz\<close> by (simp add: drop_bit_eq_div)
qed

section \<open>Inbound dispatcher\<close>

text \<open>Comparing a bytes object with an integer: \<open>res == MQTT_PINGRESP\<close> has the bytes
  just read on the left and the constant \<open>0xd0\<close> on the right, and Python never finds
  the two equal.\<close>

definition bytes_eq_int :: "byte list \<Rightarrow> int \<Rightarrow> bool" where
  "bytes_eq_int bs n = False"

text \<open>\<open>wait_for_msg\<close>: the result is \<open>None\<close> or the first byte of the packet.\<close>

definition wait_for_msg :: "mqtt \<Rightarrow> (error + int option) \<times> mqtt" where
  "wait_for_msg s =
     (case sock_read s 1 of (res, s1) \<Rightarrow>
      (case res of
         [] \<Rightarrow> (Inr None, s1)
       | r0 # _ \<Rightarrow>
           if bytes_eq_int res 0xd0 then
             (case sock_read s1 1 of (szb, s2) \<Rightarrow>
                (case getitem szb 0 of
                   Inl e \<Rightarrow> (Inl e, s2)
                 | Inr sz \<Rightarrow> if sz = 0 then (Inr None, s2) else (Inl AssertionError, s2)))
           else if uint r0 AND 0xf0 \<noteq> 0x30 then (Inr (Some (uint r0)), s1)
           else
             (case recv_len s1 of
                (Inl e, s2) \<Rightarrow> (Inl e, s2)
              | (Inr sz, s2) \<Rightarrow>
                  (case sock_read s2 2 of (tlen, s3) \<Rightarrow>
                   (case getitem tlen 0 of
                      Inl e \<Rightarrow> (Inl e, s3)
                    | Inr t0 \<Rightarrow>
                   (case getitem tlen 1 of
                      Inl e \<Rightarrow> (Inl e, s3)
                    | Inr t1 \<Rightarrow>
                   (let topic_len = push_bit 8 t0 OR t1 in
                    case sock_read s3 topic_len of (topic_b, s4) \<Rightarrow>
                    (case utf8_decode topic_b of
                       Inl e \<Rightarrow> (Inl e, s4)
                     | Inr topic \<Rightarrow>
                    (let sz1 = sz - (topic_len + 2) in
                     case
                       (if uint r0 AND 0x06 \<noteq> 0 then
                          (case sock_read s4 2 of (pb, s5) \<Rightarrow>
                           (case getitem pb 0 of
                              Inl e \<Rightarrow> (Inl e, s5)
                            | Inr p0 \<Rightarrow>
                           (case getitem pb 1 of
                              Inl e \<Rightarrow> (Inl e, s5)
                            | Inr p1 \<Rightarrow> (Inr (push_bit 8 p0 OR p1, sz1 - 0x02), s5))))
                        else (Inr (0, sz1), s4))
                     of
                       (Inl e, s5) \<Rightarrow> (Inl e, s5)
                     | (Inr (pid', sz2), s5) \<Rightarrow>
                         (case sock_read s5 sz2 of (msg, s6) \<Rightarrow>
                          (case
                             (if on_message s6 then
                                (case utf8_decode msg of
                                   Inl e \<Rightarrow> Inl e
                                 | Inr m \<Rightarrow> Inr (fire True (OnMessage topic m) s6))
                              else Inr s6)
                           of
                             Inl e \<Rightarrow> (Inl e, s6)
                           | Inr s7 \<Rightarrow>
                               if uint r0 AND 0x06 = 0x02 then
                                 (Inr (Some (uint r0)),
                                  sock_write s7
                                    [0x40, 0x02, word_of_int (pid' div 256), word_of_int (pid' mod 256)])
                               else if uint r0 AND 6 = 4 then (Inl AssertionError, s7)
                               else (Inr (Some (uint r0)), s7))))))))))))"

section \<open>Session checks\<close>

text \<open>\<open>is_connected\<close>: the attribute \<open>_sock\<close> exists only once \<open>connect\<close> has run,
  and nothing sets it to \<open>None\<close>.\<close>

definition is_connected :: "mqtt \<Rightarrow> error + bool" where
  "is_connected s =
     (if \<not> has_sock s then Inl AttributeError
      else if \<not> is_connected_attr s then Inl (MMQTTException ''MiniMQTT is not connected.'')
      else Inr (is_connected_attr s))"

definition MQTT_TOPIC_LENGTH_LIMIT :: nat where
  "MQTT_TOPIC_LENGTH_LIMIT = 65535"

definition MQTT_MSG_MAX_SZ :: nat where
  "MQTT_MSG_MAX_SZ = 268435455"

definition check_topic :: "pystr option \<Rightarrow> error + unit" where
  "check_topic topic =
     (case topic of
        None \<Rightarrow> Inl (MMQTTException ''Topic may not be Nonetype'')
      | Some t \<Rightarrow>
          if length t = 0 then Inl (MMQTTException ''Topic may not be empty.'')
          else
            (case utf8_encode t of
               Inl e \<Rightarrow> Inl e
             | Inr bs \<Rightarrow>
                 if length bs > MQTT_TOPIC_LENGTH_LIMIT
                 then Inl (MMQTTException ''Topic length is too large.'')
                 else Inr ()))"

section \<open>Publish\<close>

text \<open>The \<open>msg\<close> argument of \<open>publish\<close>: \<open>None\<close>, an integer, a float (given by the
  text \<open>str\<close> prints for it), a string, or a value of another type.\<close>

datatype payload = PNone | PInt int | PFloat pystr | PStr pystr | POther

fun dec_digits :: "nat \<Rightarrow> pystr" where
  "dec_digits n = (if n < 10 then [48 + n] else dec_digits (n div 10) @ [48 + n mod 10])"

definition str_int :: "int \<Rightarrow> pystr" where
  "str_int i = (if i < 0 then 45 # dec_digits (nat (- i)) else dec_digits (nat i))"

definition ascii_encode :: "pystr \<Rightarrow> error + byte list" where
  "ascii_encode cs = (if \<forall>c \<in> set cs. c < 128 then Inr (map of_nat cs) else Inl UnicodeError)"

definition msg_bytes :: "payload \<Rightarrow> error + byte list" where
  "msg_bytes msg =
     (case msg of
        PNone \<Rightarrow> Inl (MMQTTException ''Message can not be None.'')
      | PInt i \<Rightarrow> ascii_encode (str_int i)
      | PFloat txt \<Rightarrow> ascii_encode txt
      | PStr t \<Rightarrow> utf8_encode t
      | POther \<Rightarrow> Inl (MMQTTException ''Invalid message data type.''))"

text \<open>\<open>struct.pack_into("!H", pkt, 0, pid)\<close> overwrites the first two bytes of
  \<open>pkt\<close>.\<close>

definition pack_into_H :: "byte list \<Rightarrow> int \<Rightarrow> error + byte list" where
  "pack_into_H pkt v =
     (case struct_pack_H v of
        Inl e \<Rightarrow> Inl e
      | Inr bs \<Rightarrow> if length pkt < 2 then Inl PackError else Inr (bs @ drop 2 pkt))"

text \<open>The \<open>while 1\<close> loop of \<open>publish\<close> for QoS 1. It has no exit but the matching
  PUBACK and an exception, so the model counts its rounds: with no round left the
  result is \<open>None\<close>, the call has not returned.\<close>

fun puback_loop :: "nat \<Rightarrow> int \<Rightarrow> mqtt \<Rightarrow> (error + unit) option \<times> mqtt" where
  "puback_loop 0 pid' s = (None, s)"
| "puback_loop (Suc n) pid' s =
     (case wait_for_msg s of
        (Inl e, s1) \<Rightarrow> (Some (Inl e), s1)
      | (Inr op, s1) \<Rightarrow>
          if op = Some 0x40 then
            (case sock_read s1 1 of (sz, s2) \<Rightarrow>
               if sz \<noteq> [0x02] then (Some (Inl AssertionError), s2)
               else
                 (case sock_read s2 2 of (rp, s3) \<Rightarrow>
                  (case getitem rp 0 of
                     Inl e \<Rightarrow> (Some (Inl e), s3)
                   | Inr r0 \<Rightarrow>
                  (case getitem rp 1 of
                     Inl e \<Rightarrow> (Some (Inl e), s3)
                   | Inr r1 \<Rightarrow>
                  (let rcv_pid = push_bit 8 r0 OR r1;
                       s4 = fire (on_publish s3) (OnPublish rcv_pid) s3
                   in if pid' = rcv_pid then (Some (Inr ()), s4)
                      else puback_loop n pid' s4)))))
          else puback_loop n pid' s1)"

text \<open>\<open>publish\<close>. The topic is a \<open>str\<close>. \<open>pkt\<close> is the shared bytearray
  \<open>MQTT_PUB\<close>, so every store into \<open>pkt\<close> is a store into \<open>MQTT_PUB\<close>.\<close>

definition publish ::
  "nat \<Rightarrow> mqtt \<Rightarrow> pystr \<Rightarrow> payload \<Rightarrow> bool \<Rightarrow> int \<Rightarrow> (error + unit) option \<times> mqtt" where
  "publish fuel s topic msg retain qos =
     (case is_connected s of Inl e \<Rightarrow> (Some (Inl e), s) | Inr _ \<Rightarrow>
      (case check_topic (Some topic) of Inl e \<Rightarrow> (Some (Inl e), s) | Inr _ \<Rightarrow>
       if 43 \<in> set topic \<or> 35 \<in> set topic
       then (Some (Inl (MMQTTException ''Topic can not contain wildcards.'')), s)
       else
      (case msg_bytes msg of Inl e \<Rightarrow> (Some (Inl e), s) | Inr m \<Rightarrow>
       if length m > MQTT_MSG_MAX_SZ
       then (Some (Inl (MMQTTException ''Message size larger than 268435455b.'')), s)
       else if qos < 0 \<or> qos > 2
       then (Some (Inl (MMQTTException ''Invalid QoS level,  must be between 0 and 2.'')), s)
       else
      (case getitem (MQTT_PUB s) 0 of Inl e \<Rightarrow> (Some (Inl e), s) | Inr b0 \<Rightarrow>
      (case setitem (MQTT_PUB s) 0 (b0 OR (push_bit 1 qos OR (if retain then 1 else 0))) of
         Inl e \<Rightarrow> (Some (Inl e), s)
       | Inr pkt0 \<Rightarrow>
      (let sz = 2 + int (length topic) + int (length m);
           sz = (if qos > 0 then sz + 2 else sz)
       in if \<not> sz < 2097152 then (Some (Inl AssertionError), s\<lparr>MQTT_PUB := pkt0\<rparr>)
          else
      (case encode_len pkt0 1 sz of
         (Inl e, pkt1) \<Rightarrow> (Some (Inl e), s\<lparr>MQTT_PUB := pkt1\<rparr>)
       | (Inr _, pkt1) \<Rightarrow>
      (case send_str (sock_write (s\<lparr>MQTT_PUB := pkt1\<rparr>) pkt1) topic of
         (Inl e, s1) \<Rightarrow> (Some (Inl e), s1)
       | (Inr _, s1) \<Rightarrow>
      (let s2 = (if qos = 0 then fire (on_publish s1) (OnPublish (pid s1)) s1 else s1) in
       case
         (if qos > 0 then
            (let s3 = s2\<lparr>pid := pid s2 + 1\<rparr> in
             case pack_into_H (MQTT_PUB s3) (pid s3) of
               Inl e \<Rightarrow> (Inl e, s3)
             | Inr pkt2 \<Rightarrow>
                 (let s4 = sock_write (s3\<lparr>MQTT_PUB := pkt2\<rparr>) pkt2
                  in (Inr (), fire (on_publish s4) (OnPublish (pid s4)) s4)))
          else (Inr (), s2))
       of
         (Inl e, s5) \<Rightarrow> (Some (Inl e), s5)
       | (Inr _, s5) \<Rightarrow>
      (let s6 = sock_write s5 m in
       if qos = 1 then puback_loop fuel (pid s6) s6
       else if qos = 2 then (Some (Inl AssertionError), s6)
       else (Some (Inr ()), s6)))))))))))"

section \<open>Construction and connection\<close>

text \<open>Sequencing of two steps that may raise: the second runs on the state the first
  leaves, unless the first raised.\<close>

definition then_do ::
  "(error + 'a) \<times> mqtt \<Rightarrow> ('a \<Rightarrow> mqtt \<Rightarrow> (error + 'b) \<times> mqtt) \<Rightarrow> (error + 'b) \<times> mqtt" where
  "then_do r f = (case r of (Inl e, s) \<Rightarrow> (Inl e, s) | (Inr x, s) \<Rightarrow> f x s)"

text \<open>\<open>last_will\<close>.\<close>

definition last_will :: "mqtt \<Rightarrow> pystr option \<Rightarrow> pystr option \<Rightarrow> int \<Rightarrow> bool \<Rightarrow> error + mqtt" where
  "last_will s topic message qos retain =
     (if is_connected_attr s
      then Inl (MMQTTException ''Last Will should be defined before connect() is called.'')
      else if qos < 0 \<or> qos > 2
      then Inl (MMQTTException ''Invalid QoS level,  must be between 0 and 2.'')
      else Inr (s\<lparr>lw_qos := qos, lw_topic := topic, lw_msg := message, lw_retain := retain\<rparr>))"

text \<open>The \<open>esp\<close> argument of the constructor: \<open>None\<close>, or an object that has the
  attribute \<open>_gpio0\<close> or has not.\<close>

datatype esp_arg = EspNone | EspObj bool

text \<open>\<open>__init__\<close>. The \<open>socket\<close> argument is given by what its sockets do: whether
  connecting succeeds and the bytes they deliver. \<open>uid_byte\<close> and \<open>rand_digit\<close> are
  the byte of the CPU identifier and the digit that \<open>randint\<close> picks for a generated
  client identifier. The server address and the logger take no part in what follows.
  The bytearrays of the module are as the import leaves them.\<close>

definition MQTT_init ::
  "bool \<times> byte list \<Rightarrow> int option \<Rightarrow> pystr option \<Rightarrow> pystr option \<Rightarrow> esp_arg \<Rightarrow>
   pystr option \<Rightarrow> bool \<Rightarrow> nat \<Rightarrow> nat \<Rightarrow> error + mqtt" where
  "MQTT_init socket port' username password esp' client_id' is_ssl uid_byte rand_digit =
     (case esp' of
        EspNone \<Rightarrow> Inl NotImplementedError
      | EspObj gpio0 \<Rightarrow>
          if \<not> gpio0 then Inl (MMQTTException ''Invalid ESP32SPI object provided.'')
          else
            (let port0 = (if is_ssl then 8883 else 1883);
                 port1 = (case port' of None \<Rightarrow> port0 | Some p \<Rightarrow> p)
             in case password of
                  None \<Rightarrow> Inl AttributeError
                | Some pw \<Rightarrow>
                    (case utf8_encode pw of
                       Inl e \<Rightarrow> Inl e
                     | Inr pwb \<Rightarrow>
                         if length pwb > MQTT_TOPIC_LENGTH_LIMIT
                         then Inl (MMQTTException ''Password length is too large.'')
                         else
                           (case
                              (case client_id' of
                                 Some c \<Rightarrow> Inr c
                               | None \<Rightarrow>
                                   (let c = [99, 112, 121] @ dec_digits uid_byte @ dec_digits rand_digit
                                    in if length c > 23 \<or> c = [] then Inl ValueError else Inr c))
                            of
                              Inl e \<Rightarrow> Inl e
                            | Inr cid \<Rightarrow>
                                last_will
                                  \<lparr>esp = True, port = port1, user = username, passw = pw,
                                   client_id = cid, is_connected_attr = False, has_sock = False,
                                   keep_alive = 0, pid = 0, lw_topic = None, lw_msg = None,
                                   lw_qos = 0, lw_retain = False, subscribed_topics = [],
                                   on_connect = False, on_message = False, on_publish = False,
                                   on_subscribe = False, on_unsubscribe = False, events = [],
                                   MQTT_PUB = [0x30, 0], MQTT_CON = [0x10, 0, 0],
                                   MQTT_CON_HEADER = [0x04, 0x4D, 0x51, 0x54, 0x54, 0x04, 0x02, 0, 0],
                                   net_ok = fst socket, rx = snd socket, tx = []\<rparr>
                                  None None 0 False))))"

definition CONNACK_ERRORS :: "int \<Rightarrow> string option" where
  "CONNACK_ERRORS =
     map_of [(0x01, ''Connection Refused - Incorrect Protocol Version''),
             (0x02, ''Connection Refused - ID Rejected''),
             (0x03, ''Connection Refused - Server unavailable''),
             (0x04, ''Connection Refused - Incorrect username/password''),
             (0x05, ''Connection Refused - Unauthorized'')]"

text \<open>\<open>msg[i] = v\<close> and \<open>msg[i] |= v\<close> on the shared \<open>MQTT_CON_HEADER\<close>.\<close>

definition hdr_set :: "mqtt \<Rightarrow> nat \<Rightarrow> int \<Rightarrow> (error + unit) \<times> mqtt" where
  "hdr_set s i v =
     (case setitem (MQTT_CON_HEADER s) i v of
        Inl e \<Rightarrow> (Inl e, s)
      | Inr m \<Rightarrow> (Inr (), s\<lparr>MQTT_CON_HEADER := m\<rparr>))"

definition hdr_ior :: "mqtt \<Rightarrow> nat \<Rightarrow> int \<Rightarrow> (error + unit) \<times> mqtt" where
  "hdr_ior s i v =
     (case getitem (MQTT_CON_HEADER s) i of
        Inl e \<Rightarrow> (Inl e, s)
      | Inr b \<Rightarrow> hdr_set s i (b OR v))"

text \<open>Truth value of \<open>self._lw_topic\<close>: set and not empty.\<close>

definition lw_topic_set :: "mqtt \<Rightarrow> bool" where
  "lw_topic_set s = (case lw_topic s of None \<Rightarrow> False | Some t \<Rightarrow> t \<noteq> [])"

text \<open>\<open>len(x)\<close> and \<open>_send_str(x)\<close> for an attribute \<open>x\<close> that may be \<open>None\<close>:
  \<open>len(None)\<close> raises TypeError.\<close>

definition len_opt :: "pystr option \<Rightarrow> error + int" where
  "len_opt x = (case x of None \<Rightarrow> Inl TypeError | Some t \<Rightarrow> Inr (int (length t)))"

definition send_str_opt :: "mqtt \<Rightarrow> pystr option \<Rightarrow> (error + unit) \<times> mqtt" where
  "send_str_opt s x = (case x of None \<Rightarrow> (Inl TypeError, s) | Some t \<Rightarrow> send_str s t)"

text \<open>\<open>connect\<close>, first part: opening the socket and sending the CONNECT packet.
  \<open>premsg\<close> is the shared \<open>MQTT_CON\<close> and \<open>msg\<close> the shared
  \<open>MQTT_CON_HEADER\<close>.\<close>

definition connect_send :: "mqtt \<Rightarrow> bool \<Rightarrow> (error + unit) \<times> mqtt" where
  "connect_send s clean_session =
     (if \<not> esp s then (Inl TypeError, s)
      else
        (let s0 = s\<lparr>has_sock := True\<rparr> in
         if \<not> net_ok s0 then (Inl (MMQTTException ''Invalid server address defined.''), s0)
         else
           then_do (hdr_set s0 6 (if clean_session then 2 else 0)) (\<lambda>_ s1.
           then_do
             (case user s1 of
                None \<Rightarrow> (Inr (12 + int (length (client_id s1))), s1)
              | Some u \<Rightarrow>
                  then_do (hdr_ior s1 6 0xC0) (\<lambda>_ s'.
                    (Inr (12 + int (length (client_id s')) + (2 + int (length u) + 2
                          + int (length (passw s')))), s')))
             (\<lambda>sz1 s2.
           then_do
             (if keep_alive s2 \<noteq> 0 then
                (if \<not> keep_alive s2 < int MQTT_TOPIC_LENGTH_LIMIT then (Inl AssertionError, s2)
                 else
                   then_do (hdr_ior s2 7 (drop_bit 8 (keep_alive s2))) (\<lambda>_ s'.
                     hdr_ior s' 8 (keep_alive s' AND 0x00FF)))
              else (Inr (), s2))
             (\<lambda>_ s3.
           then_do
             (if lw_topic_set s3 then
                (case len_opt (lw_topic s3) of Inl e \<Rightarrow> (Inl e, s3) | Inr lt \<Rightarrow>
                 (case len_opt (lw_msg s3) of Inl e \<Rightarrow> (Inl e, s3) | Inr lm \<Rightarrow>
                    then_do
                      (hdr_ior s3 6
                         (0x4 OR push_bit 3 (lw_qos s3 AND 0x1) OR push_bit 3 (lw_qos s3 AND 0x2)))
                      (\<lambda>_ s'.
                    then_do (hdr_ior s' 6 (if lw_retain s' then 32 else 0)) (\<lambda>_ s''.
                      (Inr (sz1 + (2 + lt + 2 + lm)), s'')))))
              else (Inr sz1, s3))
             (\<lambda>sz2 s4.
           then_do
             (case encode_len (MQTT_CON s4) 1 sz2 of (r, p) \<Rightarrow> (r, s4\<lparr>MQTT_CON := p\<rparr>))
             (\<lambda>_ s5.
           then_do
             (send_str (sock_write (sock_write s5 (MQTT_CON s5)) (MQTT_CON_HEADER s5))
                (client_id s5))
             (\<lambda>_ s6.
           then_do
             (if lw_topic_set s6 then
                then_do (send_str_opt s6 (lw_topic s6)) (\<lambda>_ s'.
                  send_str_opt s' (lw_msg s'))
              else (Inr (), s6))
             (\<lambda>_ s7.
             (case user s7 of
                None \<Rightarrow> (Inr (), s7)
              | Some u \<Rightarrow> then_do (send_str s7 u) (\<lambda>_ s'. send_str s' (passw s'))))))))))))"

text \<open>\<open>connect\<close>, second part: reading the CONNACK.\<close>

definition connect_ack :: "mqtt \<Rightarrow> (error + int) \<times> mqtt" where
  "connect_ack s =
     (case sock_read s 4 of (rc, s1) \<Rightarrow>
      (case getitem rc 0 of Inl e \<Rightarrow> (Inl e, s1) | Inr rc0 \<Rightarrow>
       if rc0 \<noteq> 0x20 then (Inl AssertionError, s1)
       else
      (case getitem rc 1 of Inl e \<Rightarrow> (Inl e, s1) | Inr rc1 \<Rightarrow>
       if rc1 \<noteq> 0x02 then (Inl AssertionError, s1)
       else
      (case getitem rc 3 of Inl e \<Rightarrow> (Inl e, s1) | Inr rc3 \<Rightarrow>
       if rc3 \<noteq> 0 then
         (case CONNACK_ERRORS rc3 of
            None \<Rightarrow> (Inl (KeyError rc3), s1)
          | Some m \<Rightarrow> (Inl (MMQTTException m), s1))
       else
         (let s2 = s1\<lparr>is_connected_attr := True\<rparr> in
          case getitem rc 2 of Inl e \<Rightarrow> (Inl e, s2) | Inr rc2 \<Rightarrow>
            (let result = rc2 AND 1
             in (Inr result, fire (on_connect s2) (OnConnect result rc3) s2)))))))"

definition connect :: "mqtt \<Rightarrow> bool \<Rightarrow> (error + int) \<times> mqtt" where
  "connect s clean_session = then_do (connect_send s clean_session) (\<lambda>_ s1. connect_ack s1)"

section \<open>Subscribe and unsubscribe\<close>

text \<open>The \<open>topic\<close> argument of \<open>subscribe\<close>: a string, a pair of a string and a
  QoS level, a list of such pairs, or a value of another type.\<close>

datatype sub_arg = SubStr pystr | SubTuple pystr int | SubList "(pystr \<times> int) list" | SubOther

text \<open>The \<open>for\<close> loop over a list argument.\<close>

fun sub_check_list :: "(pystr \<times> int) list \<Rightarrow> error + (pystr \<times> int) list" where
  "sub_check_list [] = Inr []"
| "sub_check_list ((t, q) # r) =
     (if q < 0 \<or> q > 2 then Inl (MMQTTException ''QoS level must be between 1 and 2.'')
      else
        (case check_topic (Some t) of
           Inl e \<Rightarrow> Inl e
         | Inr _ \<Rightarrow> (case sub_check_list r of Inl e \<Rightarrow> Inl e | Inr ts \<Rightarrow> Inr ((t, q) # ts))))"

text \<open>The three \<open>isinstance\<close> tests: \<open>topics\<close> stays \<open>None\<close> when none applies. A
  pair is unpacked and then passes the test for a string as well.\<close>

definition sub_str :: "pystr \<Rightarrow> int \<Rightarrow> error + (pystr \<times> int) list option" where
  "sub_str t q =
     (case check_topic (Some t) of
        Inl e \<Rightarrow> Inl e
      | Inr _ \<Rightarrow>
          if q < 0 \<or> q > 2 then Inl (MMQTTException ''QoS level must be between 1 and 2.'')
          else Inr (Some [(t, q)]))"

definition sub_topics :: "sub_arg \<Rightarrow> int \<Rightarrow> error + (pystr \<times> int) list option" where
  "sub_topics topic qos =
     (case topic of
        SubTuple t q \<Rightarrow> (case check_topic (Some t) of Inl e \<Rightarrow> Inl e | Inr _ \<Rightarrow> sub_str t q)
      | SubStr t \<Rightarrow> sub_str t qos
      | SubList l \<Rightarrow> (case sub_check_list l of Inl e \<Rightarrow> Inl e | Inr ts \<Rightarrow> Inr (Some ts))
      | SubOther \<Rightarrow> Inr None)"

text \<open>The loop that attaches each topic and QoS level to the packet.\<close>

fun sub_body :: "(pystr \<times> int) list \<Rightarrow> error + byte list" where
  "sub_body [] = Inr []"
| "sub_body ((t, q) # r) =
     (case to_bytes2 (int (length t)) of Inl e \<Rightarrow> Inl e | Inr topic_size \<Rightarrow>
      (case to_bytes1 q of Inl e \<Rightarrow> Inl e | Inr qos_byte \<Rightarrow>
       (case utf8_encode t of Inl e \<Rightarrow> Inl e | Inr tb \<Rightarrow>
        (case sub_body r of Inl e \<Rightarrow> Inl e | Inr rest \<Rightarrow>
           Inr (topic_size @ tb @ qos_byte @ rest)))))"

text \<open>The final \<open>for t in topics\<close> of \<open>subscribe\<close>: the callback gets \<open>rc[3]\<close>.\<close>

fun sub_each :: "int \<Rightarrow> (pystr \<times> int) list \<Rightarrow> mqtt \<Rightarrow> mqtt" where
  "sub_each rc3 [] s = s"
| "sub_each rc3 (t # r) s =
     (let s1 = fire (on_subscribe s) (OnSubscribe rc3) s
      in sub_each rc3 r (s1\<lparr>subscribed_topics := subscribed_topics s1 @ [fst t]\<rparr>))"

text \<open>The \<open>while 1\<close> loop of \<open>subscribe\<close>, with its rounds counted.\<close>

fun suback_loop ::
  "nat \<Rightarrow> byte list \<Rightarrow> (pystr \<times> int) list \<Rightarrow> mqtt \<Rightarrow> (error + unit) option \<times> mqtt" where
  "suback_loop 0 packet topics s = (None, s)"
| "suback_loop (Suc n) packet topics s =
     (case wait_for_msg s of
        (Inl e, s1) \<Rightarrow> (Some (Inl e), s1)
      | (Inr op, s1) \<Rightarrow>
          if op = Some 0x90 then
            (case sock_read s1 4 of (rc, s2) \<Rightarrow>
             (case getitem rc 1 of Inl e \<Rightarrow> (Some (Inl e), s2) | Inr rc1 \<Rightarrow>
             (case getitem packet 2 of Inl e \<Rightarrow> (Some (Inl e), s2) | Inr p2 \<Rightarrow>
              if rc1 \<noteq> p2 then (Some (Inl AssertionError), s2)
              else
             (case getitem rc 2 of Inl e \<Rightarrow> (Some (Inl e), s2) | Inr rc2 \<Rightarrow>
             (case getitem packet 3 of Inl e \<Rightarrow> (Some (Inl e), s2) | Inr p3 \<Rightarrow>
              if rc2 \<noteq> p3 then (Some (Inl AssertionError), s2)
              else
             (case getitem rc 3 of Inl e \<Rightarrow> (Some (Inl e), s2) | Inr rc3 \<Rightarrow>
              if rc3 = 0x80 then (Some (Inl (MMQTTException ''SUBACK Failure!'')), s2)
              else (Some (Inr ()), sub_each rc3 topics s2)))))))
          else suback_loop n packet topics s1)"

text \<open>\<open>packet_length\<close> as \<open>subscribe\<close> computes it.\<close>

definition sub_packet_length :: "(pystr \<times> int) list \<Rightarrow> int" where
  "sub_packet_length topics =
     (let packet_length = 2 + (2 * int (length topics)) + (1 * int (length topics))
      in packet_length + (\<Sum>(t, q) \<leftarrow> topics. int (length t)))"

definition subscribe :: "nat \<Rightarrow> mqtt \<Rightarrow> sub_arg \<Rightarrow> int \<Rightarrow> (error + unit) option \<times> mqtt" where
  "subscribe fuel s topic qos =
     (case is_connected s of Inl e \<Rightarrow> (Some (Inl e), s) | Inr _ \<Rightarrow>
      (case sub_topics topic qos of
         Inl e \<Rightarrow> (Some (Inl e), s)
       | Inr None \<Rightarrow> (Some (Inl TypeError), s)
       | Inr (Some topics) \<Rightarrow>
      (case to_bytes1 (sub_packet_length topics) of
         Inl e \<Rightarrow> (Some (Inl e), s)
       | Inr packet_length_byte \<Rightarrow>
      (let s1 = s\<lparr>pid := pid s + 11\<rparr> in
       case to_bytes2 (pid s1) of Inl e \<Rightarrow> (Some (Inl e), s1) | Inr packet_id_bytes \<Rightarrow>
      (case sub_body topics of Inl e \<Rightarrow> (Some (Inl e), s1) | Inr body \<Rightarrow>
      (let packet = [0x82] @ packet_length_byte @ packet_id_bytes @ body
       in suback_loop fuel packet topics (sock_write s1 packet)))))))"

text \<open>The \<open>topic\<close> argument of \<open>unsubscribe\<close>: a string, a list of strings, or a
  value of another type.\<close>

datatype unsub_arg = UnsubStr pystr | UnsubList "pystr list" | UnsubOther

fun unsub_check_list :: "pystr list \<Rightarrow> error + unit" where
  "unsub_check_list [] = Inr ()"
| "unsub_check_list (t # r) =
     (case check_topic (Some t) of Inl e \<Rightarrow> Inl e | Inr _ \<Rightarrow> unsub_check_list r)"

definition unsub_topics :: "unsub_arg \<Rightarrow> error + pystr list option" where
  "unsub_topics topic =
     (case topic of
        UnsubStr t \<Rightarrow> (case check_topic (Some t) of Inl e \<Rightarrow> Inl e | Inr _ \<Rightarrow> Inr (Some [t]))
      | UnsubList l \<Rightarrow> (case unsub_check_list l of Inl e \<Rightarrow> Inl e | Inr _ \<Rightarrow> Inr (Some l))
      | UnsubOther \<Rightarrow> Inr None)"

fun unsub_body :: "pystr list \<Rightarrow> error + byte list" where
  "unsub_body [] = Inr []"
| "unsub_body (t # r) =
     (case to_bytes2 (int (length t)) of Inl e \<Rightarrow> Inl e | Inr topic_size \<Rightarrow>
      (case utf8_encode t of Inl e \<Rightarrow> Inl e | Inr tb \<Rightarrow>
       (case unsub_body r of Inl e \<Rightarrow> Inl e | Inr rest \<Rightarrow> Inr (topic_size @ tb @ rest))))"

text \<open>The final \<open>for t in topics\<close> of \<open>unsubscribe\<close>; \<open>list.remove\<close> raises
  ValueError when the topic is not in the list any more.\<close>

fun unsub_each :: "pystr list \<Rightarrow> mqtt \<Rightarrow> (error + unit) \<times> mqtt" where
  "unsub_each [] s = (Inr (), s)"
| "unsub_each (t # r) s =
     (let s1 = fire (on_unsubscribe s) (OnUnsubscribe t (pid s)) s
      in if t \<in> set (subscribed_topics s1)
         then unsub_each r (s1\<lparr>subscribed_topics := remove1 t (subscribed_topics s1)\<rparr>)
         else (Inl ValueError, s1))"

fun unsuback_loop ::
  "nat \<Rightarrow> byte list \<Rightarrow> pystr list \<Rightarrow> mqtt \<Rightarrow> (error + unit) option \<times> mqtt" where
  "unsuback_loop 0 packet_id_bytes topics s = (None, s)"
| "unsuback_loop (Suc n) packet_id_bytes topics s =
     (case wait_for_msg s of
        (Inl e, s1) \<Rightarrow> (Some (Inl e), s1)
      | (Inr op, s1) \<Rightarrow>
          if op = Some 0x01 then
            (case sock_read s1 4 of (return_code, s2) \<Rightarrow>
             (case getitem return_code 1 of Inl e \<Rightarrow> (Some (Inl e), s2) | Inr r1 \<Rightarrow>
              if r1 \<noteq> 0x02 then (Some (Inl AssertionError), s2)
              else
             (case getitem return_code 2 of Inl e \<Rightarrow> (Some (Inl e), s2) | Inr r2 \<Rightarrow>
             (case getitem packet_id_bytes 0 of Inl e \<Rightarrow> (Some (Inl e), s2) | Inr p0 \<Rightarrow>
              if r2 \<noteq> p0 then (Some (Inl AssertionError), s2)
              else
             (case getitem return_code 3 of Inl e \<Rightarrow> (Some (Inl e), s2) | Inr r3 \<Rightarrow>
             (case getitem packet_id_bytes 1 of Inl e \<Rightarrow> (Some (Inl e), s2) | Inr p1 \<Rightarrow>
              if r3 \<noteq> p1 then (Some (Inl AssertionError), s2)
              else (case unsub_each topics s2 of (r, s3) \<Rightarrow> (Some r, s3))))))))
          else unsuback_loop n packet_id_bytes topics s1)"

text \<open>\<open>packet_length\<close> as \<open>unsubscribe\<close> computes it.\<close>

definition unsub_packet_length :: "pystr list \<Rightarrow> int" where
  "unsub_packet_length topics =
     (let packet_length = 2 + (2 * int (length topics))
      in packet_length + (\<Sum>t \<leftarrow> topics. int (length t)))"

text \<open>\<open>unsubscribe\<close> does not call \<open>is_connected\<close>; writing to \<open>self._sock\<close> raises
  AttributeError when \<open>connect\<close> has never run.\<close>

definition unsubscribe :: "nat \<Rightarrow> mqtt \<Rightarrow> unsub_arg \<Rightarrow> (error + unit) option \<times> mqtt" where
  "unsubscribe fuel s topic =
     (case unsub_topics topic of
        Inl e \<Rightarrow> (Some (Inl e), s)
      | Inr None \<Rightarrow> (Some (Inl TypeError), s)
      | Inr (Some topics) \<Rightarrow>
          if \<exists>t \<in> set topics. t \<notin> set (subscribed_topics s)
          then (Some (Inl (MMQTTException
                 ''Topic must be subscribed to before attempting to unsubscribe.'')), s)
          else
      (case to_bytes1 (unsub_packet_length topics) of
         Inl e \<Rightarrow> (Some (Inl e), s)
       | Inr packet_length_byte \<Rightarrow>
      (let s1 = s\<lparr>pid := pid s + 11\<rparr> in
       case to_bytes2 (pid s1) of Inl e \<Rightarrow> (Some (Inl e), s1) | Inr packet_id_bytes \<Rightarrow>
      (case unsub_body topics of Inl e \<Rightarrow> (Some (Inl e), s1) | Inr body \<Rightarrow>
      (let packet = [0xA2] @ packet_length_byte @ packet_id_bytes @ body
       in if \<not> has_sock s1 then (Some (Inl AttributeError), s1)
          else unsuback_loop fuel packet_id_bytes topics (sock_write s1 packet))))))"

section \<open>Example clients\<close>

text \<open>A client as the constructor returns it, and the same client once connected, with
  every callback set.\<close>

definition new_client :: mqtt where
  "new_client =
     \<lparr>esp = True, port = 8883, user = None, passw = [112, 119],
      client_id = [99, 112, 121, 55, 51], is_connected_attr = False, has_sock = False,
      keep_alive = 0, pid = 0, lw_topic = None, lw_msg = None, lw_qos = 0, lw_retain = False,
      subscribed_topics = [], on_connect = False, on_message = False, on_publish = False,
      on_subscribe = False, on_unsubscribe = False, events = [],
      MQTT_PUB = [0x30, 0], MQTT_CON = [0x10, 0, 0],
      MQTT_CON_HEADER = [0x04, 0x4D, 0x51, 0x54, 0x54, 0x04, 0x02, 0, 0],
      net_ok = True, rx = [], tx = []\<rparr>"

definition connected_client :: mqtt where
  "connected_client =
     new_client\<lparr>has_sock := True, is_connected_attr := True, on_connect := True,
       on_message := True, on_publish := True, on_subscribe := True, on_unsubscribe := True\<rparr>"

section \<open>Session state\<close>

text \<open>The session state of a client: the connected flag, the client identifier, the
  keepalive interval, the packet identifier counter and the subscriptions.
  \<open>same_session s s'\<close>: the state \<open>s'\<close> has the session of \<open>s\<close> and the same
  bytes still to read.\<close>

definition session :: "mqtt \<Rightarrow> bool \<times> pystr \<times> int \<times> int \<times> pystr list" where
  "session s = (is_connected_attr s, client_id s, keep_alive s, pid s, subscribed_topics s)"

definition same_session :: "mqtt \<Rightarrow> mqtt \<Rightarrow> bool" where
  "same_session s s' = (session s' = session s \<and> rx s' = rx s)"

section \<open>The state after the writes of a publish with QoS above 0\<close>

text \<open>What \<open>publish\<close> has done to the client \<open>s\<close> when its last write returns, for a
  QoS above 0, a topic with the UTF-8 bytes \<open>tb\<close> and a payload with the bytes \<open>m\<close>
  whose remaining length fits one length byte: the packet identifier is incremented;
  five chunks are written (fixed header and length byte, length of the topic, topic,
  packet identifier, payload); \<open>on_publish\<close> has fired once, with the new packet
  identifier; and \<open>MQTT_PUB\<close> holds the two bytes of the packet identifier.\<close>

definition qos_sent :: "mqtt \<Rightarrow> int \<Rightarrow> bool \<Rightarrow> pystr \<Rightarrow> byte list \<Rightarrow> byte list \<Rightarrow> mqtt" where
  "qos_sent s qos retain topic tb m =
     (let p = pid s + 1; sz = 2 + int (length topic) + int (length m) + 2 in
      s\<lparr>pid := p,
        MQTT_PUB := [word_of_int (p div 256), word_of_int (p mod 256)],
        events := events s @ (if on_publish s then [OnPublish p] else []),
        tx := tx s @
          [[word_of_int (uint (MQTT_PUB s ! 0) OR (push_bit 1 qos OR (if retain then 1 else 0))),
            word_of_int sz],
           [word_of_int (int (length topic) div 256), word_of_int (int (length topic) mod 256)],
           tb,
           [word_of_int (p div 256), word_of_int (p mod 256)],
           m]\<rparr>)"

section \<open>Properties\<close>

declare encode_len.simps [simp del]
declare dec_digits.simps [simp del]

lemma new_client_constructed:
  "MQTT_init (True, []) None None (Some [112, 119]) (EspObj True) None True 7 3 = Inr new_client"
  by (simp add: MQTT_init_def new_client_def last_will_def utf8_cp_def MQTT_TOPIC_LENGTH_LIMIT_def
      dec_digits.simps)

text \<open>A successful handshake of this client with a user name and a last will set: the
  CONNECT packet as written, the session-present flag returned, the client connected.\<close>

lemma connect_example:
  "connect (new_client\<lparr>user := Some [117], lw_topic := Some [119], lw_msg := Some [98, 121, 101],
      lw_qos := 1, lw_retain := True, on_connect := True, rx := [0x20, 0x02, 0x01, 0x00, 0x55]\<rparr>) True
   = (Inr 1,
      new_client\<lparr>user := Some [117], lw_topic := Some [119], lw_msg := Some [98, 121, 101],
        lw_qos := 1, lw_retain := True, on_connect := True, rx := [0x55], has_sock := True,
        is_connected_attr := True, events := [OnConnect 1 0],
        MQTT_CON := [0x10, 32, 0],
        MQTT_CON_HEADER := [0x04, 0x4D, 0x51, 0x54, 0x54, 0x04, 0xEE, 0, 0],
        tx := [[0x10, 32, 0], [0x04, 0x4D, 0x51, 0x54, 0x54, 0x04, 0xEE, 0, 0], [0, 5],
               [99, 112, 121, 55, 51], [0, 1], [119], [0, 3], [98, 121, 101], [0, 1], [117],
               [0, 2], [112, 119]]\<rparr>)"
  by (simp add: connect_def connect_send_def connect_ack_def new_client_def then_do_def
      hdr_set_def hdr_ior_def setitem_def getitem_def lw_topic_set_def len_opt_def send_str_opt_def
      encode_len.simps send_str_def struct_pack_H_def utf8_cp_def sock_write_def sock_read_def
      CONNACK_ERRORS_def fire_def)

subsection \<open>The constructor\<close>

text \<open>
  C8. A constructor call whose password is \<open>None\<close> (or left out) raises, whatever the
  other arguments are: \<open>password.encode\<close> is evaluated with no test for \<open>None\<close>
  before it. With a usable ESP32SPI object the exception is the AttributeError of that
  call; otherwise the check of the \<open>esp\<close> argument has raised already. So no client
  exists without a password.
\<close>

theorem MQTT_init_password_None:
  "(\<exists>e. MQTT_init socket port' username None esp' client_id' is_ssl uid_byte rand_digit = Inl e)
   \<and> MQTT_init socket port' username None (EspObj True) client_id' is_ssl uid_byte rand_digit
       = Inl AttributeError"
  by (cases esp') (simp_all add: MQTT_init_def)

theorem MQTT_init_password_None_witness:
  "(\<exists>e. MQTT_init (True, []) None None None (EspObj True) None True 7 3 = Inl e)
   \<and> MQTT_init (True, []) None None None (EspObj True) None True 7 3 = Inl AttributeError"
  using MQTT_init_password_None [of "(True, [])" None None "EspObj True" None True 7 3]
  by simp

subsection \<open>The connection handshake\<close>

text \<open>
  C5. A CONNACK whose return code is not zero and not one of the codes 1 to 5 of
  \<open>CONNACK_ERRORS\<close>: the specification expects a "connection refused" error of the library's
  kind. On the CONNACK \<open>20 02 00 06\<close> the call raises the KeyError of the table
  lookup instead.
\<close>

theorem connect_unknown_return_code:
  "fst (connect (new_client\<lparr>rx := [0x20, 0x02, 0, 6]\<rparr>) True) = Inl (KeyError 6)"
  by (simp add: connect_def connect_send_def connect_ack_def new_client_def then_do_def
      hdr_set_def hdr_ior_def setitem_def getitem_def lw_topic_set_def encode_len.simps
      send_str_def struct_pack_H_def utf8_cp_def sock_write_def sock_read_def CONNACK_ERRORS_def)

lemma then_do_inv:
  assumes "P (snd r)" and "\<And>x s'. P s' \<Longrightarrow> P (snd (f x s'))"
  shows "P (snd (then_do r f))"
  using assms by (cases r) (auto simp: then_do_def split: sum.splits)

lemma same_session_sock_write: "same_session s s' \<Longrightarrow> same_session s (sock_write s' bs)"
  by (simp add: same_session_def session_def sock_write_def)

lemma same_session_send_str: "same_session s s' \<Longrightarrow> same_session s (snd (send_str s' t))"
  by (auto simp: same_session_def session_def send_str_def sock_write_def Let_def split: sum.splits)

lemma same_session_send_str_opt:
  "same_session s s' \<Longrightarrow> same_session s (snd (send_str_opt s' x))"
  by (simp add: send_str_opt_def same_session_send_str split: option.splits)

lemma same_session_hdr_set: "same_session s s' \<Longrightarrow> same_session s (snd (hdr_set s' i v))"
  by (simp add: same_session_def session_def hdr_set_def split: sum.splits)

lemma same_session_hdr_ior: "same_session s s' \<Longrightarrow> same_session s (snd (hdr_ior s' i v))"
  by (simp add: hdr_ior_def same_session_hdr_set split: sum.splits)

lemma same_session_MQTT_CON: "same_session s s' \<Longrightarrow> same_session s (s'\<lparr>MQTT_CON := p\<rparr>)"
  by (simp add: same_session_def session_def)

lemma same_session_connect_send: "same_session s (snd (connect_send s c))"
proof -
  have s0: "same_session s (s\<lparr>has_sock := True\<rparr>)"
    by (simp add: same_session_def session_def)
  show ?thesis
    unfolding connect_send_def Let_def
    by (auto intro!: then_do_inv [where P = "same_session s"] same_session_hdr_set
        same_session_hdr_ior same_session_send_str same_session_send_str_opt
        same_session_sock_write same_session_MQTT_CON s0
        simp: same_session_def [of s s] split: option.splits prod.splits sum.splits)
qed

lemma connect_ack_id_rejected:
  assumes "rx s = 0x20 # 0x02 # sp # 0x02 # rest"
  shows "connect_ack s
         = (Inl (MMQTTException ''Connection Refused - ID Rejected''), s\<lparr>rx := rest\<rparr>)"
  using assms by (simp add: connect_ack_def sock_read_def getitem_def CONNACK_ERRORS_def)

text \<open>
  C6. A \<open>connect\<close> call that receives a CONNACK with return code 2 (the next bytes
  of the transport are \<open>20 02 sp 02\<close>): the call ends with an exception and leaves the
  session state as it was, so the connected flag of a disconnected client stays false;
  when the CONNECT packet has been sent, so that the call reads the CONNACK, the
  exception is the MMQTTException with the message
  \<open>Connection Refused - ID Rejected\<close>.
\<close>

theorem connect_id_rejected:
  assumes "rx s = 0x20 # 0x02 # sp # 0x02 # rest"
  shows "session (snd (connect s clean_session)) = session s
         \<and> (\<exists>e. fst (connect s clean_session) = Inl e)
         \<and> (fst (connect_send s clean_session) = Inr ()
              \<longrightarrow> fst (connect s clean_session)
                   = Inl (MMQTTException ''Connection Refused - ID Rejected''))"
proof (cases "connect_send s clean_session")
  case (Pair r s1)
  have keep: "same_session s s1"
    using same_session_connect_send [of s clean_session] Pair by simp
  show ?thesis
  proof (cases r)
    case (Inl e)
    with Pair keep show ?thesis
      by (simp add: connect_def then_do_def same_session_def)
  next
    case (Inr u)
    from keep assms have "rx s1 = 0x20 # 0x02 # sp # 0x02 # rest"
      by (simp add: same_session_def)
    then have "connect_ack s1
        = (Inl (MMQTTException ''Connection Refused - ID Rejected''), s1\<lparr>rx := rest\<rparr>)"
      by (rule connect_ack_id_rejected)
    with Pair Inr keep show ?thesis
      by (simp add: connect_def then_do_def same_session_def session_def)
  qed
qed

theorem connect_id_rejected_witness:
  "fst (connect_send (new_client\<lparr>rx := [0x20, 0x02, 0, 0x02]\<rparr>) True) = Inr ()
   \<and> fst (connect (new_client\<lparr>rx := [0x20, 0x02, 0, 0x02]\<rparr>) True)
       = Inl (MMQTTException ''Connection Refused - ID Rejected'')
   \<and> \<not> is_connected_attr (snd (connect (new_client\<lparr>rx := [0x20, 0x02, 0, 0x02]\<rparr>) True))"
proof -
  have sent: "fst (connect_send (new_client\<lparr>rx := [0x20, 0x02, 0, 0x02]\<rparr>) True) = Inr ()"
    by (simp add: connect_send_def new_client_def then_do_def hdr_set_def hdr_ior_def
        setitem_def getitem_def lw_topic_set_def encode_len.simps send_str_def struct_pack_H_def
        utf8_cp_def sock_write_def)
  have "rx (new_client\<lparr>rx := [0x20, 0x02, 0, 0x02]\<rparr>) = 0x20 # 0x02 # 0 # 0x02 # []"
    by simp
  from connect_id_rejected [OF this, of True] sent show ?thesis
    by (simp add: session_def new_client_def)
qed

subsection \<open>The wire codec\<close>

text \<open>
  C7. The string encoder: the specification expects a length prefix equal to the number of
  bytes of the UTF-8 encoding. \<open>_send_str\<close> packs \<open>len(string)\<close>, the number of
  code points: for the one-character string U+00E9, whose encoding has two bytes, it
  writes the prefix \<open>00 01\<close> and then the two bytes \<open>C3 A9\<close>.
\<close>

theorem send_str_prefix_counts_code_points:
  "utf8_encode [233] = Inr [0xC3, 0xA9]
   \<and> send_str connected_client [233]
       = (Inr (), connected_client\<lparr>tx := [[0, 1], [0xC3, 0xA9]]\<rparr>)"
  by (simp add: send_str_def struct_pack_H_def utf8_cp_def sock_write_def connected_client_def
      new_client_def)

text \<open>\<open>_send_str\<close> has no check of its own on the length: a string of more than 65535
  code points makes \<open>struct.pack\<close> raise, before anything is written.\<close>

lemma send_str_too_long:
  "65535 < length t \<Longrightarrow> send_str s t = (Inl PackError, s)"
  by (simp add: send_str_def struct_pack_H_def)

lemma utf8_encode_ascii:
  "\<forall>c \<in> set cs. c < 128 \<Longrightarrow> utf8_encode cs = Inr (map of_nat cs)"
  by (induction cs) (simp_all add: utf8_cp_def)

text \<open>The remaining-length loop and \<open>_recv_len\<close> are inverse to each other wherever
  the loop runs to its end: if the loop, started at index 1 of a bytearray, stores the
  encoding of \<open>n\<close> without an IndexError, then \<open>_recv_len\<close>, reading the bytes of
  the bytearray from index 1 on, returns \<open>n\<close>. The lemmas on single bits come first.\<close>

lemma bit_127: "bit (127::int) n = (n < 7)"
proof -
  have "(127::int) = mask 7" by (simp add: mask_eq_exp_minus_1)
  then show ?thesis by (simp only: bit_mask_iff) simp
qed

lemma bit_128: "bit (128::int) n = (n = 7)"
proof -
  have "(128::int) = 2 ^ 7" by simp
  then show ?thesis by (simp only: bit_exp_iff) auto
qed

lemma len_low_bits: "((sz AND 0x7f) OR 0x80) AND 0x7f = sz AND (0x7f::int)"
  by (rule bit_eqI) (auto simp: bit_simps bit_127 bit_128)

lemma len_cont_bit: "((sz AND 0x7f) OR 0x80) AND 0x80 = (0x80::int)"
  by (rule bit_eqI) (auto simp: bit_simps bit_127 bit_128)

lemma len_byte_range: "0 \<le> (sz AND 0x7f) OR (0x80::int)" "(sz AND 0x7f) OR (0x80::int) \<le> 255"
proof -
  have a: "0 \<le> sz AND (0x7f::int)" by simp
  have b: "sz AND (0x7f::int) \<le> 0x7f" by (rule AND_upper2') simp_all
  show "0 \<le> (sz AND 0x7f) OR (0x80::int)" using a by simp
  have "(sz AND 0x7f) OR (0x80::int) < 2 ^ 8"
    using a b by (intro OR_upper) simp_all
  then show "(sz AND 0x7f) OR (0x80::int) \<le> 255" by simp
qed

lemma len_split: "(sz AND 0x7f) OR push_bit 7 (drop_bit 7 sz) = (sz::int)"
proof (rule bit_eqI)
  fix n
  show "bit ((sz AND 0x7f) OR push_bit 7 (drop_bit 7 sz)) n = bit sz n"
    by (cases "n < 7") (simp_all add: bit_simps bit_127 not_less)
qed

lemma len_last:
  assumes "0 \<le> sz" "sz \<le> (0x7f::int)"
  shows "sz AND 0x7f = sz" "sz AND 0x80 = 0"
proof -
  from assms have "take_bit 7 sz = sz" by (simp add: take_bit_int_eq_self)
  then have hi: "\<not> bit sz n" if "7 \<le> n" for n
    using that by (metis bit_take_bit_iff not_less)
  have lo: "n < 7" if "bit sz n" for n
    using hi [of n] that by (cases "n < 7") simp_all
  show "sz AND 0x7f = sz"
    by (rule bit_eqI) (use lo in \<open>auto simp: bit_simps bit_127\<close>)
  show "sz AND 0x80 = 0"
    by (rule bit_eqI) (use lo in \<open>auto simp: bit_simps bit_128\<close>)
qed

lemma uint_byte: "0 \<le> v \<Longrightarrow> v \<le> 255 \<Longrightarrow> uint (word_of_int v :: byte) = v"
  by (simp add: uint_word_of_int_eq take_bit_int_eq_self)

lemma encode_len_keeps:
  "encode_len pkt i sz = (Inr (), pkt') \<Longrightarrow> length pkt' = length pkt \<and> (\<forall>j<i. pkt' ! j = pkt ! j)"
proof (induction pkt i sz rule: encode_len.induct)
  case (1 pkt i sz)
  show ?case
  proof (cases "0x7f < sz")
    case True
    with "1.prems" obtain pkt1 where p1: "setitem pkt i ((sz AND 0x7f) OR 0x80) = Inr pkt1"
      and rec: "encode_len pkt1 (i + 1) (drop_bit 7 sz) = (Inr (), pkt')"
      by (auto simp: encode_len.simps [of pkt i sz] split: sum.splits)
    from p1 have "length pkt1 = length pkt" "\<forall>j<i. pkt1 ! j = pkt ! j"
      by (auto simp: setitem_def split: if_splits)
    with "1.IH" [OF True p1 rec] show ?thesis by auto
  next
    case False
    with "1.prems" show ?thesis
      by (auto simp: encode_len.simps [of pkt i sz] setitem_def split: sum.splits if_splits)
  qed
qed

lemma encode_len_recv_len:
  assumes "0 \<le> sz" "encode_len pkt i sz = (Inr (), pkt')"
  shows "\<exists>k. i < k \<and> k \<le> length pkt'
           \<and> recv_len_loop acc sh (drop i pkt' @ rest)
               = Inr (acc OR push_bit sh sz, drop k pkt' @ rest)"
  using assms
proof (induction pkt i sz arbitrary: acc sh rule: encode_len.induct)
  case (1 pkt i sz)
  show ?case
  proof (cases "0x7f < sz")
    case True
    let ?v = "(sz AND 0x7f) OR 0x80"
    from "1.prems"(2) True obtain pkt1 where p1: "setitem pkt i ?v = Inr pkt1"
      and rec: "encode_len pkt1 (i + 1) (drop_bit 7 sz) = (Inr (), pkt')"
      by (auto simp: encode_len.simps [of pkt i sz] split: sum.splits)
    from p1 have i: "i < length pkt" "pkt1 = pkt[i := word_of_int ?v]"
      by (auto simp: setitem_def split: if_splits)
    from encode_len_keeps [OF rec] i have len: "length pkt' = length pkt"
      and at: "pkt' ! i = word_of_int ?v"
      by auto
    have nonneg: "0 \<le> drop_bit 7 sz" using "1.prems"(1) by simp
    from "1.IH" [OF True p1 nonneg rec, of "acc OR push_bit sh (sz AND 0x7f)" "sh + 7"]
    obtain k where k: "i + 1 < k" "k \<le> length pkt'"
      "recv_len_loop (acc OR push_bit sh (sz AND 0x7f)) (sh + 7) (drop (i + 1) pkt' @ rest)
       = Inr ((acc OR push_bit sh (sz AND 0x7f)) OR push_bit (sh + 7) (drop_bit 7 sz),
              drop k pkt' @ rest)"
      by blast
    have u: "uint (word_of_int ?v :: byte) = ?v"
      using len_byte_range [of sz] by (intro uint_byte)
    have d: "drop i pkt' = word_of_int ?v # drop (i + 1) pkt'"
      using i len at by (simp add: Cons_nth_drop_Suc [symmetric])
    have join: "(acc OR push_bit sh (sz AND 0x7f)) OR push_bit (sh + 7) (drop_bit 7 sz)
        = acc OR push_bit sh sz"
    proof -
      have "push_bit sh (sz AND 0x7f) OR push_bit (sh + 7) (drop_bit 7 sz)
          = push_bit sh ((sz AND 0x7f) OR push_bit 7 (drop_bit 7 sz))"
        by (simp add: push_bit_or push_bit_push_bit add.commute)
      then show ?thesis by (simp add: len_split or.assoc)
    qed
    have "recv_len_loop acc sh (drop i pkt' @ rest)
        = recv_len_loop (acc OR push_bit sh (sz AND 0x7f)) (sh + 7) (drop (i + 1) pkt' @ rest)"
      by (simp only: d append_Cons recv_len_loop.simps u Let_def len_low_bits len_cont_bit) simp
    with k join have "i < k \<and> k \<le> length pkt'
        \<and> recv_len_loop acc sh (drop i pkt' @ rest) = Inr (acc OR push_bit sh sz, drop k pkt' @ rest)"
      by simp
    then show ?thesis by (rule exI)
  next
    case False
    with "1.prems" have s: "0 \<le> sz" "sz \<le> 0x7f" by simp_all
    from "1.prems"(2) False have i: "i < length pkt" "pkt' = pkt[i := word_of_int sz]"
      using s by (auto simp: encode_len.simps [of pkt i sz] setitem_def split: if_splits)
    have u: "uint (word_of_int sz :: byte) = sz"
      using s by (intro uint_byte) simp_all
    have d: "drop i pkt' = word_of_int sz # drop (i + 1) pkt'"
      using i by (simp add: Cons_nth_drop_Suc [symmetric])
    have "recv_len_loop acc sh (drop i pkt' @ rest)
        = Inr (acc OR push_bit sh sz, drop (i + 1) pkt' @ rest)"
      by (simp only: d append_Cons recv_len_loop.simps u Let_def len_last [OF s]) simp
    with i have "i < i + 1 \<and> i + 1 \<le> length pkt'
        \<and> recv_len_loop acc sh (drop i pkt' @ rest)
            = Inr (acc OR push_bit sh sz, drop (i + 1) pkt' @ rest)"
      by simp
    then show ?thesis by (rule exI)
  qed
qed

lemma remaining_length_round_trip:
  assumes "0 \<le> n" "encode_len pkt 1 n = (Inr (), pkt')"
  shows "\<exists>k. recv_len (s\<lparr>rx := drop 1 pkt' @ rest\<rparr>) = (Inr n, s\<lparr>rx := drop k pkt' @ rest\<rparr>)"
  using encode_len_recv_len [OF assms, of 0 0 rest]
  by (auto simp: recv_len_def)

text \<open>
  C4. The remaining-length encoder of \<open>publish\<close> stores into \<open>MQTT_PUB\<close>, a
  bytearray of two bytes: there is room for one length byte. With the topic \<open>t\<close> and
  a payload of 125 bytes the remaining length is 128; the loop stores \<open>0x80\<close> at
  index 1 and then raises IndexError at index 2, so no bytes are produced that
  \<open>_recv_len\<close> could decode back to 128.
\<close>

theorem publish_remaining_length_128:
  "publish 0 connected_client [116] (PStr (replicate 125 97)) False 0
   = (Some (Inl IndexError), connected_client\<lparr>MQTT_PUB := [0x30, 0x80]\<rparr>)"
proof -
  have m: "msg_bytes (PStr (replicate 125 97)) = Inr (replicate 125 97)"
    by (simp add: msg_bytes_def utf8_encode_ascii)
  show ?thesis
    by (simp add: publish_def m is_connected_def check_topic_def utf8_cp_def
        MQTT_TOPIC_LENGTH_LIMIT_def MQTT_MSG_MAX_SZ_def getitem_def setitem_def
        encode_len.simps connected_client_def new_client_def)
qed

subsection \<open>Subscribe\<close>

text \<open>
  C2. Subscribing to \<open>x/y\<close> with QoS 0 and \<open>x/z\<close> with QoS 1 on a connected client
  whose packet identifier counter is 0, the broker answering with the SUBACK
  \<open>90 04 00 0B 00 01\<close> (granted levels 0 and 1): one SUBSCRIBE packet with both topics
  and the packet identifier 11 is written and both topics are appended to the
  subscriptions, but the code reads four bytes after the first one, so \<open>on_subscribe\<close>
  gets the first granted byte, 0, for both topics, and the second granted byte stays
  unread in the transport.
\<close>

theorem subscribe_two_topics_one_grant:
  "subscribe (Suc 0) (connected_client\<lparr>rx := [0x90, 0x04, 0x00, 0x0B, 0x00, 0x01]\<rparr>)
     (SubList [([120, 47, 121], 0), ([120, 47, 122], 1)]) 0
   = (Some (Inr ()),
      connected_client\<lparr>rx := [0x01], pid := 11,
        tx := [[0x82, 14, 0x00, 0x0B, 0, 3, 120, 47, 121, 0, 0, 3, 120, 47, 122, 1]],
        events := [OnSubscribe 0, OnSubscribe 0],
        subscribed_topics := [[120, 47, 121], [120, 47, 122]]\<rparr>)"
  by (simp add: subscribe_def is_connected_def sub_topics_def check_topic_def utf8_cp_def
      MQTT_TOPIC_LENGTH_LIMIT_def to_bytes1_def to_bytes2_def sock_write_def sock_read_def
      wait_for_msg_def bytes_eq_int_def getitem_def fire_def connected_client_def new_client_def
      sub_packet_length_def)

subsection \<open>Publish\<close>

lemma byte_or_range:
  fixes b :: byte
  assumes "0 \<le> v" "v < 256"
  shows "0 \<le> uint b OR v" "uint b OR v \<le> 255"
proof -
  show "0 \<le> uint b OR v" using assms by simp
  have "uint b < 2 ^ 8" using uint_bounded [of b] by simp
  then have "uint b OR v < 2 ^ 8"
    using assms by (intro OR_upper) simp_all
  then show "uint b OR v \<le> 255" by simp
qed

lemma publish_flags_range:
  assumes "0 \<le> qos" "qos \<le> 2"
  shows "0 \<le> push_bit 1 qos OR (if retain then 1 else (0::int))"
    and "push_bit 1 qos OR (if retain then 1 else (0::int)) < 256"
proof -
  from assms have "qos = 0 \<or> qos = 1 \<or> qos = 2" by arith
  then show "0 \<le> push_bit 1 qos OR (if retain then 1 else (0::int))"
    and "push_bit 1 qos OR (if retain then 1 else (0::int)) < 256"
    by auto
qed

lemma publish_flags_stored:
  assumes "0 \<le> qos" "qos \<le> 2" "pkt \<noteq> []"
  shows "setitem pkt 0 (uint (pkt ! 0) OR (push_bit 1 qos OR (if retain then 1 else 0)))
         = Inr (pkt[0 := word_of_int (uint (pkt ! 0) OR (push_bit 1 qos OR (if retain then 1 else 0)))])"
  using byte_or_range [OF publish_flags_range [OF assms(1,2), of retain], of "pkt ! 0"] assms(3)
  by (simp add: setitem_def)

text \<open>
  C9. \<open>publish\<close> with a payload of bytes \<open>m\<close> whose remaining length
  \<open>2 + len(topic) + len(m)\<close> (\<open>+ 2\<close> when the QoS is above 0) is at least 2097152:
  the call ends with an exception and writes nothing to the transport; on a connected
  client, with a valid topic, a payload within the 268435455 byte limit and a QoS from
  0 to 2, the exception is the AssertionError of \<open>assert sz < 2097152\<close>. Hence a call
  that writes to the transport has a remaining length below 2097152.
\<close>

theorem publish_oversize_asserts:
  assumes "msg_bytes msg = Inr m"
  shows "(2097152 \<le> 2 + int (length topic) + int (length m) + (if qos > 0 then 2 else 0) \<longrightarrow>
            tx (snd (publish fuel s topic msg retain qos)) = tx s
          \<and> (\<exists>e. fst (publish fuel s topic msg retain qos) = Some (Inl e))
          \<and> (is_connected s = Inr True \<and> check_topic (Some topic) = Inr ()
               \<and> 43 \<notin> set topic \<and> 35 \<notin> set topic \<and> length m \<le> MQTT_MSG_MAX_SZ
               \<and> 0 \<le> qos \<and> qos \<le> 2 \<and> MQTT_PUB s \<noteq> []
               \<longrightarrow> fst (publish fuel s topic msg retain qos) = Some (Inl AssertionError)))
       \<and> (tx (snd (publish fuel s topic msg retain qos)) \<noteq> tx s \<longrightarrow>
            2 + int (length topic) + int (length m) + (if qos > 0 then 2 else 0) < 2097152)"
proof -
  let ?sz = "2 + int (length topic) + int (length m) + (if qos > 0 then 2 else 0)"
  have big: "tx (snd (publish fuel s topic msg retain qos)) = tx s
      \<and> (\<exists>e. fst (publish fuel s topic msg retain qos) = Some (Inl e))" if "2097152 \<le> ?sz"
    using that assms
    by (auto simp: publish_def Let_def split: sum.splits)
  have asrt: "fst (publish fuel s topic msg retain qos) = Some (Inl AssertionError)"
    if "2097152 \<le> ?sz" "is_connected s = Inr True" "check_topic (Some topic) = Inr ()"
      "43 \<notin> set topic" "35 \<notin> set topic" "length m \<le> MQTT_MSG_MAX_SZ"
      "0 \<le> qos" "qos \<le> 2" "MQTT_PUB s \<noteq> []"
    using that assms publish_flags_stored [of qos "MQTT_PUB s" retain]
    by (auto simp: publish_def Let_def getitem_def split: sum.splits)
  from big asrt show ?thesis by (cases "2097152 \<le> ?sz") auto
qed

theorem publish_oversize_asserts_witness:
  "msg_bytes (PStr (replicate 2097150 97)) = Inr (replicate 2097150 97)
   \<and> (2097152::int) \<le> 2 + int (length [116::nat]) + int (length (replicate 2097150 (97::byte))) + 0
   \<and> tx (snd (publish 0 connected_client [116] (PStr (replicate 2097150 97)) False 0))
       = tx connected_client
   \<and> fst (publish 0 connected_client [116] (PStr (replicate 2097150 97)) False 0)
       = Some (Inl AssertionError)"
proof -
  have m: "msg_bytes (PStr (replicate 2097150 97)) = Inr (replicate 2097150 97)"
    by (simp add: msg_bytes_def utf8_encode_ascii)
  have c: "is_connected connected_client = Inr True"
    by (simp add: is_connected_def connected_client_def new_client_def)
  have t: "check_topic (Some [116]) = Inr ()"
    by (simp add: check_topic_def utf8_cp_def MQTT_TOPIC_LENGTH_LIMIT_def)
  have p: "MQTT_PUB connected_client \<noteq> []"
    by (simp add: connected_client_def new_client_def)
  from publish_oversize_asserts [OF m, of "[116]" 0 0 connected_client False] m c t p
  show ?thesis
    by (simp add: MQTT_MSG_MAX_SZ_def)
qed

subsection \<open>The length byte of SUBSCRIBE and UNSUBSCRIBE\<close>

lemma utf8_cp_length: "utf8_cp c = Inr bs \<Longrightarrow> 1 \<le> length bs"
  by (auto simp: utf8_cp_def split: if_splits)

lemma utf8_encode_length: "utf8_encode t = Inr bs \<Longrightarrow> length t \<le> length bs"
proof (induction t arbitrary: bs)
  case Nil
  then show ?case by simp
next
  case (Cons c cs)
  then show ?case
    by (fastforce split: sum.splits dest: utf8_cp_length)
qed

lemma check_topic_encodes:
  assumes "check_topic (Some t) = Inr ()"
  shows "\<exists>bs. utf8_encode t = Inr bs \<and> length t \<le> 65535"
proof -
  from assms obtain bs where bs: "utf8_encode t = Inr bs" "length bs \<le> 65535"
    by (auto simp: check_topic_def MQTT_TOPIC_LENGTH_LIMIT_def split: if_splits sum.splits)
  with utf8_encode_length [OF bs(1)] show ?thesis by simp
qed

lemma sub_body_one:
  assumes "check_topic (Some t) = Inr ()" "0 \<le> q" "q \<le> 2" "sub_body r = Inr rest"
  shows "\<exists>body. sub_body ((t, q) # r) = Inr body"
  using check_topic_encodes [OF assms(1)] assms(2-)
  by (auto simp: to_bytes2_def to_bytes1_def)

lemma sub_check_list_body: "sub_check_list l = Inr ts \<Longrightarrow> \<exists>body. sub_body ts = Inr body"
proof (induction l arbitrary: ts)
  case Nil
  then show ?case by simp
next
  case (Cons a l)
  obtain t q where a: "a = (t, q)" by (cases a)
  from Cons.prems a obtain ts' where ts': "sub_check_list l = Inr ts'" "ts = (t, q) # ts'"
    "check_topic (Some t) = Inr ()" "0 \<le> q" "q \<le> 2"
    by (auto split: if_splits sum.splits)
  from Cons.IH [OF ts'(1)] obtain rest where "sub_body ts' = Inr rest" by blast
  from sub_body_one [OF ts'(3-5) this] ts'(2) show ?case by simp
qed

lemma sub_topics_body:
  assumes "sub_topics topic qos = Inr (Some topics)"
  shows "\<exists>body. sub_body topics = Inr body"
proof (cases topic)
  case (SubStr t)
  with assms have "check_topic (Some t) = Inr ()" "0 \<le> qos" "qos \<le> 2" "topics = [(t, qos)]"
    by (auto simp: sub_topics_def sub_str_def split: sum.splits if_splits)
  with sub_body_one [of t qos "[]" "[]"] show ?thesis by simp
next
  case (SubTuple t q)
  with assms have "check_topic (Some t) = Inr ()" "0 \<le> q" "q \<le> 2" "topics = [(t, q)]"
    by (auto simp: sub_topics_def sub_str_def split: sum.splits if_splits)
  with sub_body_one [of t q "[]" "[]"] show ?thesis by simp
next
  case (SubList l)
  with assms have "sub_check_list l = Inr topics"
    by (auto simp: sub_topics_def split: sum.splits)
  then show ?thesis by (rule sub_check_list_body)
next
  case SubOther
  with assms show ?thesis by (simp add: sub_topics_def)
qed

lemma unsub_check_list_body: "unsub_check_list l = Inr () \<Longrightarrow> \<exists>body. unsub_body l = Inr body"
proof (induction l)
  case Nil
  then show ?case by simp
next
  case (Cons t l)
  from Cons.prems have t: "check_topic (Some t) = Inr ()" and l: "unsub_check_list l = Inr ()"
    by (auto split: sum.splits)
  from Cons.IH [OF l] check_topic_encodes [OF t] show ?case
    by (auto simp: to_bytes2_def)
qed

lemma unsub_topics_body:
  assumes "unsub_topics topic = Inr (Some topics)"
  shows "\<exists>body. unsub_body topics = Inr body"
proof (cases topic)
  case (UnsubStr t)
  with assms have "check_topic (Some t) = Inr ()" "topics = [t]"
    by (auto simp: unsub_topics_def split: sum.splits)
  with check_topic_encodes [of t] show ?thesis by (auto simp: to_bytes2_def)
next
  case (UnsubList l)
  with assms have "unsub_check_list l = Inr ()" "topics = l"
    by (auto simp: unsub_topics_def split: sum.splits)
  then show ?thesis by (auto dest: unsub_check_list_body)
next
  case UnsubOther
  with assms show ?thesis by (simp add: unsub_topics_def)
qed

lemma sub_packet_length_nonneg: "0 \<le> sub_packet_length topics"
proof -
  have "0 \<le> (\<Sum>(t, q) \<leftarrow> topics. int (length t))"
    by (induction topics) auto
  then show ?thesis by (simp add: sub_packet_length_def)
qed

lemma unsub_packet_length_nonneg: "0 \<le> unsub_packet_length topics"
proof -
  have "0 \<le> (\<Sum>t \<leftarrow> topics. int (length t))"
    by (induction topics) auto
  then show ?thesis by (simp add: unsub_packet_length_def)
qed

text \<open>
  C10. \<open>subscribe\<close> (on a connected client, with topics that pass the checks) and
  \<open>unsubscribe\<close> (with checked topics that are all subscribed) emit the remaining
  length as the single byte \<open>packet_length.to_bytes(1, 'big')\<close>. When the computed
  length exceeds 255 the call raises OverflowError and leaves the client and the
  transport as they were. Otherwise (the packet identifier fitting two bytes) the one
  packet written is the opcode, that single raw length byte, the two bytes of the packet
  identifier and the topics, and the call goes on to wait for the acknowledgment. A
  length of 155, for one, is sent as the one byte \<open>9B\<close>.
\<close>

theorem subscribe_unsubscribe_length_byte:
  "(is_connected s = Inr True \<and> sub_topics topic qos = Inr (Some topics) \<longrightarrow>
      (255 < sub_packet_length topics \<longrightarrow>
         subscribe fuel s topic qos = (Some (Inl OverflowError), s))
    \<and> (sub_packet_length topics \<le> 255 \<and> 0 \<le> pid s + 11 \<and> pid s + 11 \<le> 65535 \<longrightarrow>
         (\<exists>body packet. sub_body topics = Inr body
            \<and> packet = [0x82, word_of_int (sub_packet_length topics),
                        word_of_int ((pid s + 11) div 256), word_of_int ((pid s + 11) mod 256)] @ body
            \<and> subscribe fuel s topic qos
                = suback_loop fuel packet topics (sock_write (s\<lparr>pid := pid s + 11\<rparr>) packet))))
   \<and> (unsub_topics utopic = Inr (Some utopics) \<and> set utopics \<subseteq> set (subscribed_topics s) \<longrightarrow>
      (255 < unsub_packet_length utopics \<longrightarrow>
         unsubscribe fuel s utopic = (Some (Inl OverflowError), s))
    \<and> (unsub_packet_length utopics \<le> 255 \<and> 0 \<le> pid s + 11 \<and> pid s + 11 \<le> 65535 \<and> has_sock s \<longrightarrow>
         (\<exists>body packet. unsub_body utopics = Inr body
            \<and> packet = [0xA2, word_of_int (unsub_packet_length utopics),
                        word_of_int ((pid s + 11) div 256), word_of_int ((pid s + 11) mod 256)] @ body
            \<and> unsubscribe fuel s utopic
                = unsuback_loop fuel
                    [word_of_int ((pid s + 11) div 256), word_of_int ((pid s + 11) mod 256)]
                    utopics (sock_write (s\<lparr>pid := pid s + 11\<rparr>) packet))))"
proof -
  have sub_over: "subscribe fuel s topic qos = (Some (Inl OverflowError), s)"
    if "is_connected s = Inr True" "sub_topics topic qos = Inr (Some topics)"
      "255 < sub_packet_length topics"
    using that by (simp add: subscribe_def to_bytes1_def)
  have sub_ok: "\<exists>body packet. sub_body topics = Inr body
            \<and> packet = [0x82, word_of_int (sub_packet_length topics),
                        word_of_int ((pid s + 11) div 256), word_of_int ((pid s + 11) mod 256)] @ body
            \<and> subscribe fuel s topic qos
                = suback_loop fuel packet topics (sock_write (s\<lparr>pid := pid s + 11\<rparr>) packet)"
    if "is_connected s = Inr True" "sub_topics topic qos = Inr (Some topics)"
      "sub_packet_length topics \<le> 255" "0 \<le> pid s + 11" "pid s + 11 \<le> 65535"
  proof -
    from sub_topics_body [OF that(2)] obtain body where "sub_body topics = Inr body" by blast
    with that sub_packet_length_nonneg [of topics] show ?thesis
      by (simp add: subscribe_def to_bytes1_def to_bytes2_def Let_def)
  qed
  have unsub_over: "unsubscribe fuel s utopic = (Some (Inl OverflowError), s)"
    if "unsub_topics utopic = Inr (Some utopics)" "set utopics \<subseteq> set (subscribed_topics s)"
      "255 < unsub_packet_length utopics"
    using that by (auto simp: unsubscribe_def to_bytes1_def)
  have unsub_ok: "\<exists>body packet. unsub_body utopics = Inr body
            \<and> packet = [0xA2, word_of_int (unsub_packet_length utopics),
                        word_of_int ((pid s + 11) div 256), word_of_int ((pid s + 11) mod 256)] @ body
            \<and> unsubscribe fuel s utopic
                = unsuback_loop fuel
                    [word_of_int ((pid s + 11) div 256), word_of_int ((pid s + 11) mod 256)]
                    utopics (sock_write (s\<lparr>pid := pid s + 11\<rparr>) packet)"
    if "unsub_topics utopic = Inr (Some utopics)" "set utopics \<subseteq> set (subscribed_topics s)"
      "unsub_packet_length utopics \<le> 255" "0 \<le> pid s + 11" "pid s + 11 \<le> 65535" "has_sock s"
  proof -
    from unsub_topics_body [OF that(1)] obtain body where "unsub_body utopics = Inr body" by blast
    with that unsub_packet_length_nonneg [of utopics] show ?thesis
      by (auto simp: unsubscribe_def to_bytes1_def to_bytes2_def Let_def)
  qed
  from sub_over sub_ok unsub_over unsub_ok show ?thesis by blast
qed

theorem subscribe_unsubscribe_length_byte_witness:
  "subscribe 0 (connected_client\<lparr>subscribed_topics := [replicate 300 97, replicate 150 97]\<rparr>)
       (SubStr (replicate 300 97)) 0
     = (Some (Inl OverflowError),
        connected_client\<lparr>subscribed_topics := [replicate 300 97, replicate 150 97]\<rparr>)
   \<and> unsubscribe 0 (connected_client\<lparr>subscribed_topics := [replicate 300 97, replicate 150 97]\<rparr>)
       (UnsubStr (replicate 300 97))
     = (Some (Inl OverflowError),
        connected_client\<lparr>subscribed_topics := [replicate 300 97, replicate 150 97]\<rparr>)
   \<and> tx (snd (subscribe 0
         (connected_client\<lparr>subscribed_topics := [replicate 300 97, replicate 150 97]\<rparr>)
         (SubStr (replicate 150 97)) 0))
     = [[0x82, 155, 0, 11, 0, 150] @ replicate 150 97 @ [0]]
   \<and> tx (snd (unsubscribe 0
         (connected_client\<lparr>subscribed_topics := [replicate 300 97, replicate 150 97]\<rparr>)
         (UnsubStr (replicate 150 97))))
     = [[0xA2, 154, 0, 11, 0, 150] @ replicate 150 97]"
proof -
  let ?s = "connected_client\<lparr>subscribed_topics := [replicate 300 97, replicate 150 97]\<rparr>"
  have c: "is_connected ?s = Inr True" "has_sock ?s" "pid ?s = 0" "tx ?s = []"
    by (simp_all add: is_connected_def connected_client_def new_client_def)
  have t: "check_topic (Some (replicate 300 97)) = Inr ()"
      "check_topic (Some (replicate 150 97)) = Inr ()"
    by (simp_all add: check_topic_def utf8_encode_ascii MQTT_TOPIC_LENGTH_LIMIT_def)
  have st: "sub_topics (SubStr (replicate 300 97)) 0 = Inr (Some [(replicate 300 97, 0)])"
      "sub_topics (SubStr (replicate 150 97)) 0 = Inr (Some [(replicate 150 97, 0)])"
    by (simp_all add: sub_topics_def sub_str_def t)
  have ut: "unsub_topics (UnsubStr (replicate 300 97)) = Inr (Some [replicate 300 97])"
      "unsub_topics (UnsubStr (replicate 150 97)) = Inr (Some [replicate 150 97])"
    by (simp_all add: unsub_topics_def t)
  have l: "sub_packet_length [(replicate 300 97, 0)] = 305"
      "unsub_packet_length [replicate 300 97] = 304"
      "sub_packet_length [(replicate 150 97, 0)] = 155"
      "unsub_packet_length [replicate 150 97] = 154"
    by (simp_all add: sub_packet_length_def unsub_packet_length_def)
  have b: "sub_body [(replicate 150 97, 0)] = Inr ([0, 150] @ replicate 150 97 @ [0])"
      "unsub_body [replicate 150 97] = Inr ([0, 150] @ replicate 150 97)"
    by (simp_all add: to_bytes2_def to_bytes1_def utf8_encode_ascii)
  from subscribe_unsubscribe_length_byte
    [of ?s "SubStr (replicate 300 97)" 0 "[(replicate 300 97, 0)]" 0
        "UnsubStr (replicate 300 97)" "[replicate 300 97]"]
    c st ut l
  have big: "subscribe 0 ?s (SubStr (replicate 300 97)) 0 = (Some (Inl OverflowError), ?s)"
      "unsubscribe 0 ?s (UnsubStr (replicate 300 97)) = (Some (Inl OverflowError), ?s)"
    by simp_all
  from subscribe_unsubscribe_length_byte
    [of ?s "SubStr (replicate 150 97)" 0 "[(replicate 150 97, 0)]" 0
        "UnsubStr (replicate 150 97)" "[replicate 150 97]"]
    c st ut l b
  have small: "tx (snd (subscribe 0 ?s (SubStr (replicate 150 97)) 0))
        = [[0x82, 155, 0, 11, 0, 150] @ replicate 150 97 @ [0]]"
      "tx (snd (unsubscribe 0 ?s (UnsubStr (replicate 150 97))))
        = [[0xA2, 154, 0, 11, 0, 150] @ replicate 150 97]"
    by (simp_all add: sock_write_def)
  from big small show ?thesis by simp
qed

subsection \<open>Publish with QoS 1 and QoS 2\<close>

lemma setitem_byte_or:
  fixes b :: byte
  assumes "0 \<le> v" "v < 256" "i < length bs"
  shows "setitem bs i (uint b OR v) = Inr (bs[i := word_of_int (uint b OR v)])"
  using byte_or_range [OF assms(1,2), of b] assms(3) by (simp add: setitem_def)

lemma encode_len_one_byte:
  assumes "0 \<le> sz" "sz \<le> 127"
  shows "encode_len [a, b] (Suc 0) sz = (Inr (), [a, word_of_int sz])"
  using assms by (simp add: encode_len.simps setitem_def)

lemma publish_qos_pos:
  assumes conn: "is_connected s = Inr True"
    and topic: "check_topic (Some topic) = Inr ()" "utf8_encode topic = Inr tb"
      "43 \<notin> set topic" "35 \<notin> set topic"
    and msg: "msg_bytes msg = Inr m"
    and qos: "qos = 1 \<or> qos = 2"
    and pub: "length (MQTT_PUB s) = 2"
    and sz: "2 + int (length topic) + int (length m) + 2 \<le> 127"
    and pid: "0 \<le> pid s + 1" "pid s + 1 \<le> 65535"
  shows "publish fuel s topic msg retain qos
         = (if qos = 1 then puback_loop fuel (pid s + 1) (qos_sent s qos retain topic tb m)
            else (Some (Inl AssertionError), qos_sent s qos retain topic tb m))"
proof -
  have len: "length topic \<le> 65535"
    using check_topic_encodes [OF topic(1)] by simp
  have mlen: "length m \<le> MQTT_MSG_MAX_SZ"
    using sz by (simp add: MQTT_MSG_MAX_SZ_def)
  from pub obtain x y where xy: "MQTT_PUB s = [x, y]"
    by (cases "MQTT_PUB s"; cases "tl (MQTT_PUB s)") auto
  from qos show ?thesis
  proof
    assume q: "qos = 1"
    show ?thesis
      using conn topic msg mlen len pid sz
      by (simp add: q publish_def qos_sent_def Let_def getitem_def send_str_def struct_pack_H_def
          sock_write_def pack_into_H_def fire_def xy setitem_byte_or encode_len_one_byte)
  next
    assume q: "qos = 2"
    show ?thesis
      using conn topic msg mlen len pid sz
      by (simp add: q publish_def qos_sent_def Let_def getitem_def send_str_def struct_pack_H_def
          sock_write_def pack_into_H_def fire_def xy setitem_byte_or encode_len_one_byte)
  qed
qed

text \<open>
  C3. \<open>publish\<close> with QoS 2 on a connected client: the specification expects a failure with
  nothing written to the transport. The code accepts QoS 2 in its validation, sends the
  packet, and fails at the \<open>assert 0\<close> of the QoS 2 branch after the last write: for
  the topic \<open>a/b\<close> and the payload \<open>hi\<close> five chunks are on the transport when the
  AssertionError is raised.
\<close>

theorem publish_qos2_writes_counterexample:
  "fst (publish 0 connected_client [97, 47, 98] (PStr [104, 105]) False 2)
     = Some (Inl AssertionError)
   \<and> tx connected_client = []
   \<and> tx (snd (publish 0 connected_client [97, 47, 98] (PStr [104, 105]) False 2))
     = [[0x34, 9], [0, 3], [97, 47, 98], [0, 1], [104, 105]]"
  by (simp add: publish_def is_connected_def check_topic_def msg_bytes_def utf8_cp_def
      MQTT_TOPIC_LENGTH_LIMIT_def MQTT_MSG_MAX_SZ_def getitem_def setitem_def encode_len.simps
      send_str_def struct_pack_H_def pack_into_H_def sock_write_def fire_def
      connected_client_def new_client_def)

text \<open>
  C3, as the code has it. \<open>publish\<close> with QoS 2 never returns normally: it ends with
  an exception. On a connected client whose shared bytearray \<open>MQTT_PUB\<close> holds the
  PUBLISH opcode \<open>30\<close> in its first byte, as it does at import, with a valid topic and
  payload, a remaining length of at most 127 and a packet identifier that fits two
  bytes, the call writes five chunks: the PUBLISH fixed header \<open>34\<close> (\<open>35\<close> with
  retain) with the length byte, the length of the topic, the topic, the new packet
  identifier and the payload. It fires \<open>on_publish\<close> with the new packet identifier,
  and then raises AssertionError, which is not the library's MMQTTException.
\<close>

theorem publish_qos2_fails_after_send:
  "(\<exists>e. fst (publish fuel s topic msg retain 2) = Some (Inl e))
   \<and> (is_connected s = Inr True \<and> check_topic (Some topic) = Inr ()
        \<and> utf8_encode topic = Inr tb \<and> 43 \<notin> set topic \<and> 35 \<notin> set topic
        \<and> msg_bytes msg = Inr m \<and> length (MQTT_PUB s) = 2 \<and> MQTT_PUB s ! 0 = 0x30
        \<and> 2 + int (length topic) + int (length m) + 2 \<le> 127
        \<and> 0 \<le> pid s + 1 \<and> pid s + 1 \<le> 65535
      \<longrightarrow> fst (publish fuel s topic msg retain 2) = Some (Inl AssertionError)
        \<and> tx (snd (publish fuel s topic msg retain 2))
            = tx s @
              [[if retain then 0x35 else 0x34,
                word_of_int (2 + int (length topic) + int (length m) + 2)],
               [word_of_int (int (length topic) div 256), word_of_int (int (length topic) mod 256)],
               tb,
               [word_of_int ((pid s + 1) div 256), word_of_int ((pid s + 1) mod 256)],
               m]
        \<and> events (snd (publish fuel s topic msg retain 2))
            = events s @ (if on_publish s then [OnPublish (pid s + 1)] else [])
        \<and> pid (snd (publish fuel s topic msg retain 2)) = pid s + 1)"
proof -
  have fails: "\<exists>e. fst (publish fuel s topic msg retain 2) = Some (Inl e)"
    by (auto simp: publish_def Let_def split: sum.splits prod.splits)
  have sent: "fst (publish fuel s topic msg retain 2) = Some (Inl AssertionError)
        \<and> tx (snd (publish fuel s topic msg retain 2))
            = tx s @
              [[if retain then 0x35 else 0x34,
                word_of_int (2 + int (length topic) + int (length m) + 2)],
               [word_of_int (int (length topic) div 256), word_of_int (int (length topic) mod 256)],
               tb,
               [word_of_int ((pid s + 1) div 256), word_of_int ((pid s + 1) mod 256)],
               m]
        \<and> events (snd (publish fuel s topic msg retain 2))
            = events s @ (if on_publish s then [OnPublish (pid s + 1)] else [])
        \<and> pid (snd (publish fuel s topic msg retain 2)) = pid s + 1"
    if h: "is_connected s = Inr True" "check_topic (Some topic) = Inr ()"
      "utf8_encode topic = Inr tb" "43 \<notin> set topic" "35 \<notin> set topic"
      "msg_bytes msg = Inr m" "length (MQTT_PUB s) = 2" "MQTT_PUB s ! 0 = 0x30"
      "2 + int (length topic) + int (length m) + 2 \<le> 127"
      "0 \<le> pid s + 1" "pid s + 1 \<le> 65535"
  proof -
    have "publish fuel s topic msg retain 2
        = (Some (Inl AssertionError), qos_sent s 2 retain topic tb m)"
      using publish_qos_pos [OF h(1-6) _ h(7) h(9-11), of 2 fuel retain] by simp
    then show ?thesis
      using h(8) by (simp add: qos_sent_def Let_def)
  qed
  from fails sent show ?thesis by blast
qed

theorem publish_qos2_fails_after_send_witness:
  "fst (publish 0 connected_client [97, 47, 98] (PStr [104, 105]) True 2)
     = Some (Inl AssertionError)
   \<and> tx (snd (publish 0 connected_client [97, 47, 98] (PStr [104, 105]) True 2))
     = [[0x35, 9], [0, 3], [97, 47, 98], [0, 1], [104, 105]]
   \<and> events (snd (publish 0 connected_client [97, 47, 98] (PStr [104, 105]) True 2))
     = [OnPublish 1]
   \<and> pid (snd (publish 0 connected_client [97, 47, 98] (PStr [104, 105]) True 2)) = 1"
proof -
  have h: "is_connected connected_client = Inr True"
      "check_topic (Some [97, 47, 98]) = Inr ()" "utf8_encode [97, 47, 98] = Inr [97, 47, 98]"
      "msg_bytes (PStr [104, 105]) = Inr [104, 105]" "length (MQTT_PUB connected_client) = 2"
      "MQTT_PUB connected_client ! 0 = 0x30" "pid connected_client = 0"
      "tx connected_client = []" "events connected_client = []" "on_publish connected_client"
    by (simp_all add: is_connected_def check_topic_def msg_bytes_def utf8_cp_def
        MQTT_TOPIC_LENGTH_LIMIT_def connected_client_def new_client_def)
  from publish_qos2_fails_after_send
    [of 0 connected_client "[97, 47, 98]" "PStr [104, 105]" True "[97, 47, 98]" "[104, 105]"] h
  show ?thesis
    by simp
qed

subsection \<open>The inbound dispatcher and the wait for a PUBACK\<close>

text \<open>An inbound PUBLISH with QoS 1 for the topic \<open>a/b\<close>, packet identifier 7 and
  payload \<open>hi\<close>: the message callback fires and the PUBACK for 7 is written.\<close>

lemma wait_for_msg_example:
  "wait_for_msg (connected_client\<lparr>rx := [0x32, 9, 0, 3, 97, 47, 98, 0, 7, 104, 105, 0x90]\<rparr>)
   = (Inr (Some 0x32),
      connected_client\<lparr>rx := [0x90], events := [OnMessage [97, 47, 98] [104, 105]],
        tx := [[0x40, 0x02, 0, 7]]\<rparr>)"
  by (simp add: wait_for_msg_def sock_read_def sock_write_def bytes_eq_int_def recv_len_def
      getitem_def is_cont_def fire_def connected_client_def new_client_def)



lemma recv_len_loop_suffix: "recv_len_loop n sh bs = Inr (v, r) \<Longrightarrow> suffix r bs"
proof (induction bs arbitrary: n sh)
  case Nil
  then show ?case by simp
next
  case (Cons b bs)
  then show ?case
    by (auto simp: Let_def suffix_Cons split: if_splits)
qed

lemma recv_len_suffix: "suffix (rx (snd (recv_len s))) (rx s)"
  by (auto simp: recv_len_def split: sum.splits dest: recv_len_loop_suffix)

lemma sock_read_suffix: "suffix (rx (snd (sock_read s n))) (rx s)"
  by (simp add: sock_read_def suffix_drop)













end
